theory Spec2Isabelle
  imports Complex_Main
begin

section \<open>Python values and errors\<close>

text \<open>
  The exceptions that the modelled parts of \<^verbatim>\<open>src/project.py\<close> can raise. A function
  that can raise returns \<open>py_error + 'a\<close>, with \<open>Inl\<close> for the exception.
\<close>

datatype py_error =
    IndexError
  | ValueError
  | UnboundLocalError
  | AttributeError
  | RuntimeError
  | FileExistsError
  | FileNotFoundError
  | NotADirectoryError
  | IsADirectoryError

text \<open>Sequencing of a computation that may raise: the first exception wins.\<close>

definition bind_r :: "py_error + 'a \<Rightarrow> ('a \<Rightarrow> py_error + 'b) \<Rightarrow> py_error + 'b" where
  "bind_r m f = (case m of Inl e \<Rightarrow> Inl e | Inr v \<Rightarrow> f v)"

section \<open>String operations of Python used by the log parser\<close>

text \<open>
  Strings are lists of characters; a character stands for a code point below 256.
  \<open>str_contains n h\<close> is Python's \<^verbatim>\<open>n in h\<close> on strings.
\<close>

fun startswith :: "string \<Rightarrow> string \<Rightarrow> bool" where
  "startswith [] h = True"
| "startswith (a # as) [] = False"
| "startswith (a # as) (b # bs) = (a = b \<and> startswith as bs)"

fun str_contains :: "string \<Rightarrow> string \<Rightarrow> bool" where
  "str_contains n [] = (n = [])"
| "str_contains n (c # cs) = (startswith n (c # cs) \<or> str_contains n cs)"

text \<open>
  \<^verbatim>\<open>s.strip(chars)\<close> removes, from both ends, every character that occurs in \<open>chars\<close>.
  \<^verbatim>\<open>s.strip()\<close> removes white space; below code point 256 Python's white space is
  \<^verbatim>\<open>\t \n \v \f \r\<close>, the separators 0x1C to 0x1F, the blank, 0x85 and 0xA0.
\<close>

definition strip_with :: "(char \<Rightarrow> bool) \<Rightarrow> string \<Rightarrow> string" where
  "strip_with p s = rev (dropWhile p (rev (dropWhile p s)))"

definition strip_chars :: "string \<Rightarrow> string \<Rightarrow> string" where
  "strip_chars chars s = strip_with (\<lambda>c. c \<in> set chars) s"

definition is_space :: "char \<Rightarrow> bool" where
  "is_space c = ((of_char c :: nat) \<in> {9, 10, 11, 12, 13, 28, 29, 30, 31, 32, 133, 160})"

definition strip :: "string \<Rightarrow> string" where
  "strip s = strip_with is_space s"

text \<open>
  \<^verbatim>\<open>s.split(sep)\<close> for a separator of one character: every occurrence splits, and empty
  fields are kept.
\<close>

fun split :: "char \<Rightarrow> string \<Rightarrow> string list" where
  "split sep [] = [[]]"
| "split sep (c # cs) =
     (if c = sep then [] # split sep cs
      else (case split sep cs of [] \<Rightarrow> [[c]] | w # ws \<Rightarrow> (c # w) # ws))"

text \<open>
  \<^verbatim>\<open>int(s)\<close> in base ten. The white space that \<^verbatim>\<open>int\<close> skips at both ends is not that
  of \<^verbatim>\<open>strip\<close>: below code point 256 it is \<^verbatim>\<open>\t \n \v \f \r\<close> and the blank, and 0x85
  and 0xA0, which the conversion first turns into blanks; the separators 0x1C to 0x1F are
  not skipped. Then come an optional sign and decimal digits, where single underscores
  may stand between digits. Anything else raises \<^verbatim>\<open>ValueError\<close>, and so does a number of
  more than 4300 digits (the interpreter's default limit, leading zeros counted).
\<close>

definition int_space :: "char \<Rightarrow> bool" where
  "int_space c = ((of_char c :: nat) \<in> {9, 10, 11, 12, 13, 32, 133, 160})"

definition is_digit :: "char \<Rightarrow> bool" where
  "is_digit c = (48 \<le> (of_char c :: nat) \<and> (of_char c :: nat) \<le> 57)"

definition digit_val :: "char \<Rightarrow> int" where
  "digit_val c = int (of_char c) - 48"

fun parse_digits :: "int \<Rightarrow> string \<Rightarrow> int option" where
  "parse_digits acc [] = Some acc"
| "parse_digits acc [c] = (if is_digit c then Some (acc * 10 + digit_val c) else None)"
| "parse_digits acc (c # d # ds) =
     (if is_digit c then parse_digits (acc * 10 + digit_val c) (d # ds)
      else if c = CHR ''_'' \<and> is_digit d then parse_digits (acc * 10 + digit_val d) ds
      else None)"

definition max_str_digits :: nat where
  "max_str_digits = 4300"

definition parse_unsigned :: "string \<Rightarrow> py_error + int" where
  "parse_unsigned s =
     (case s of
        [] \<Rightarrow> Inl ValueError
      | d # ds \<Rightarrow>
          if is_digit d then
            (case parse_digits (digit_val d) ds of
               None \<Rightarrow> Inl ValueError
             | Some v \<Rightarrow>
                 if length (filter is_digit s) > max_str_digits then Inl ValueError
                 else Inr v)
          else Inl ValueError)"

definition py_int :: "string \<Rightarrow> py_error + int" where
  "py_int s =
     (case strip_with int_space s of
        [] \<Rightarrow> Inl ValueError
      | c # cs \<Rightarrow>
          if c = CHR ''-'' then bind_r (parse_unsigned cs) (\<lambda>v. Inr (- v))
          else if c = CHR ''+'' then parse_unsigned cs
          else parse_unsigned (c # cs))"

text \<open>
  The format specification \<^verbatim>\<open>02d\<close> of an integer: decimal digits, padded with zeros
  to a width of two, the sign counting towards the width.
\<close>

fun nat_digits :: "nat \<Rightarrow> string" where
  "nat_digits n =
     (if n < 10 then [char_of (48 + n)]
      else nat_digits (n div 10) @ [char_of (48 + n mod 10)])"

definition zero_pad :: "nat \<Rightarrow> string \<Rightarrow> string" where
  "zero_pad w s = replicate (w - length s) CHR ''0'' @ s"

definition format_02d :: "int \<Rightarrow> string" where
  "format_02d n =
     (if n < 0 then CHR ''-'' # zero_pad 1 (nat_digits (nat (- n)))
      else zero_pad 2 (nat_digits (nat n)))"

section \<open>The throughput parser: \<^verbatim>\<open>get_tps_time\<close>\<close>

text \<open>
  A log file is the list of its lines, as \<^verbatim>\<open>readlines\<close> returns them. The two
  list comprehensions of the source select the lines that contain a marker.
\<close>

definition tps_lines :: "string list \<Rightarrow> string list" where
  "tps_lines lines = filter (str_contains ''Average TPS'') lines"

definition time_lines :: "string list \<Rightarrow> string list" where
  "time_lines lines = filter (str_contains ''Time'') lines"

text \<open>\<^verbatim>\<open>tpsline.strip("Average TPS:").strip()\<close>\<close>

definition parse_tps :: "string \<Rightarrow> string" where
  "parse_tps tpsline = strip (strip_chars ''Average TPS:'' tpsline)"

text \<open>
  \<^verbatim>\<open>h,m,s = line.split(" ")[1].split(":")\<close> followed by
  \<^verbatim>\<open>int(h)*3600 + int(m)*60 + int(s)\<close>: the index raises \<^verbatim>\<open>IndexError\<close> when the line
  has no second field, the unpacking and \<^verbatim>\<open>int\<close> raise \<^verbatim>\<open>ValueError\<close>.
\<close>

definition parse_time :: "string \<Rightarrow> py_error + int" where
  "parse_time line =
     (case split CHR '' '' line of
        f0 # f1 # fs \<Rightarrow>
          (case split CHR '':'' f1 of
             [h, m, s] \<Rightarrow>
               bind_r (py_int h) (\<lambda>hv.
               bind_r (py_int m) (\<lambda>mv.
               bind_r (py_int s) (\<lambda>sv. Inr (hv * 3600 + mv * 60 + sv))))
           | _ \<Rightarrow> Inl ValueError)
      | _ \<Rightarrow> Inl IndexError)"

text \<open>
  The loop's variables: \<open>tps\<close> is unbound (\<open>None\<close>) until a file assigns it, and
  \<open>tms\<close> (the source's \<^verbatim>\<open>times\<close>) is the list of seconds. One round of the loop is
  the \<^verbatim>\<open>try\<close> block with its handler:
  \<^verbatim>\<open>IndexError\<close> ends the block and keeps what was assigned before; any other exception
  leaves the function.
\<close>

type_synonym tps_state = "string option \<times> int list"

definition process_file :: "string list \<Rightarrow> tps_state \<Rightarrow> py_error + tps_state" where
  "process_file lines st =
     (case st of (tps, tms) \<Rightarrow>
        (case tps_lines lines of
           [] \<Rightarrow> Inr (tps, tms)
         | l # ls \<Rightarrow>
             (let tps' = Some (parse_tps (last (l # ls))) in
                (case time_lines lines of
                   [] \<Rightarrow> Inr (tps', tms)
                 | t # ts \<Rightarrow>
                     (case parse_time (last (t # ts)) of
                        Inl e \<Rightarrow> if e = IndexError then Inr (tps', tms) else Inl e
                      | Inr secs \<Rightarrow> Inr (tps', tms @ [secs]))))))"

fun process_files :: "string list list \<Rightarrow> tps_state \<Rightarrow> py_error + tps_state" where
  "process_files [] st = Inr st"
| "process_files (f # fs) st = bind_r (process_file f st) (process_files fs)"

text \<open>
  \<^verbatim>\<open>np.sum(times)\<close> on a list of Python integers, as NumPy 1 on a 64-bit platform
  computes it. The list becomes an array whose type depends on the values:
  \<^item> the empty list gives the float \<open>0.0\<close>;
  \<^item> values that all fit a signed 64-bit integer give an \<^verbatim>\<open>int64\<close> array, whose sum
    wraps around;
  \<^item> values from \<open>-2^63\<close> up to \<open>2^64 - 1\<close> of which one does not fit \<^verbatim>\<open>int64\<close> give a
    \<^verbatim>\<open>uint64\<close> or a \<^verbatim>\<open>float64\<close> array, and the quotient of the sum by a Python integer
    is a float;
  \<^item> a value outside that range gives an array of objects, and the sum is the exact
    Python integer.
  A float is \<open>FloatTotal\<close>: its value does not matter, since the format \<^verbatim>\<open>02d\<close> rejects
  every float with \<^verbatim>\<open>ValueError\<close>.
\<close>

definition in_int64 :: "int \<Rightarrow> bool" where
  "in_int64 x = (- (2 ^ 63) \<le> x \<and> x < 2 ^ 63)"

definition wrap_int64 :: "int \<Rightarrow> int" where
  "wrap_int64 x = (x + 2 ^ 63) mod 2 ^ 64 - 2 ^ 63"

datatype np_total = IntTotal int | FloatTotal

definition np_sum :: "int list \<Rightarrow> np_total" where
  "np_sum tms =
     (if tms = [] then FloatTotal
      else if list_all in_int64 tms then IntTotal (wrap_int64 (sum_list tms))
      else if list_all (\<lambda>t. - (2 ^ 63) \<le> t \<and> t < 2 ^ 64) tms then FloatTotal
      else IntTotal (sum_list tms))"

text \<open>
  After the loop the hours, minutes and seconds are computed from the total; division
  and remainder round towards minus infinity, as \<open>div\<close> and \<open>mod\<close> on \<open>int\<close> do, and
  in 64 bits the difference \<^verbatim>\<open>total_time - hh*3600\<close> is the exact one, since it lies
  between 0 and 3599. The \<^verbatim>\<open>return\<close> reads \<open>tps\<close> first, which raises
  \<^verbatim>\<open>UnboundLocalError\<close> when no file assigned it, and then formats the three numbers.
\<close>

definition render_time :: "int \<Rightarrow> string" where
  "render_time total_time =
     (let hh = total_time div 3600;
          mm = (total_time - hh * 3600) div 60;
          ss = total_time mod 60
      in format_02d hh @ '':'' @ format_02d mm @ '':'' @ format_02d ss)"

definition get_tps_time :: "string list list \<Rightarrow> py_error + (string \<times> string)" where
  "get_tps_time outfiles =
     bind_r (process_files outfiles (None, [])) (\<lambda>(tps, tms).
       (case tps of
          None \<Rightarrow> Inl UnboundLocalError
        | Some v \<Rightarrow>
            (case np_sum tms of
               FloatTotal \<Rightarrow> Inl ValueError
             | IntTotal total_time \<Rightarrow> Inr (v, render_time total_time))))"

section \<open>Jobs, trajectories and the workspace\<close>

text \<open>
  A frame of a trajectory, with the fields of a snapshot that the source reads:
  \<^verbatim>\<open>configuration.step\<close>, \<^verbatim>\<open>configuration.box\<close>, \<^verbatim>\<open>particles.types\<close>,
  \<^verbatim>\<open>particles.typeid\<close> and \<^verbatim>\<open>particles.position\<close>. Floating-point numbers are
  idealised as reals; the step counter of a frame is unsigned.
\<close>

type_synonym vec3 = "real \<times> real \<times> real"

type_synonym quaternion = "real \<times> real \<times> real \<times> real"

record frame =
  step :: nat
  box :: "real list"
  types :: "string list"
  typeid :: "nat list"
  position :: "vec3 list"

text \<open>
  A curve of a figure is its label, its abscissae and its ordinates. The content of a
  file is what the call that wrote it was given; of a figure the model keeps the curves
  (axis labels, titles and legends are left out), of a diffraction image the computed
  pattern. \<open>OtherData\<close> stands for every file that the modelled code does not read (a
  marker file, a log).
\<close>

type_synonym curve = "string option \<times> real list \<times> real list"

datatype content =
    GsdTrajectory "frame list"
  | TextTable string string "(real \<times> real) list"
  | NpyArray "real list"
  | NpyQuaternions "quaternion list"
  | Figure "curve list"
  | DiffractionFigure "real list list"
  | OtherData string

datatype node = Dir | File content

text \<open>
  The statepoint of a job holds the keys that the source reads from \<^verbatim>\<open>job.sp\<close>. Of the
  job document the model keeps the two keys that the modelled functions read or write:
  \<^verbatim>\<open>steps\<close> and \<^verbatim>\<open>msd_slopes\<close>; a key that is not set is \<open>None\<close>. The workspace of a
  job is a map from paths, relative to \<^verbatim>\<open>job.ws\<close>, to nodes. Paths are compared as
  text: the components \<^verbatim>\<open>.\<close> and \<^verbatim>\<open>..\<close> and repeated slashes are not resolved.
\<close>

record statepoint =
  input :: "string list"
  forcefield :: string
  n_compounds :: "nat list"
  density :: string
  remove_hydrogens :: bool
  kT_reduced :: real
  e_factor :: real
  n_steps :: int
  shrink_steps :: int
  tau :: real
  dt :: real
  mode :: string

record document =
  steps :: "int option"
  msd_slopes :: "(string \<rightharpoonup> real) option"

record job =
  sp :: statepoint
  doc :: document
  fs :: "string \<rightharpoonup> node"

text \<open>\<^verbatim>\<open>job.isfile(name)\<close>: the path is a regular file of the workspace.\<close>

definition isfile :: "job \<Rightarrow> string \<Rightarrow> bool" where
  "isfile j name = (case fs j name of Some (File c) \<Rightarrow> True | _ \<Rightarrow> False)"

text \<open>
  \<^verbatim>\<open>gsd.hoomd.open(job.fn("trajectory.gsd"))\<close>: the frames of the trajectory file.
\<close>

definition open_gsd :: "job \<Rightarrow> py_error + frame list" where
  "open_gsd j =
     (case fs j ''trajectory.gsd'' of
        None \<Rightarrow> Inl FileNotFoundError
      | Some Dir \<Rightarrow> Inl IsADirectoryError
      | Some (File c) \<Rightarrow>
          (case c of GsdTrajectory traj \<Rightarrow> Inr traj | _ \<Rightarrow> Inl RuntimeError))"

text \<open>\<^verbatim>\<open>traj[-1]\<close> and \<^verbatim>\<open>traj[0]\<close> raise \<^verbatim>\<open>IndexError\<close> on an empty trajectory.\<close>

definition last_frame :: "frame list \<Rightarrow> py_error + frame" where
  "last_frame traj = (if traj = [] then Inl IndexError else Inr (last traj))"

definition first_frame :: "frame list \<Rightarrow> py_error + frame" where
  "first_frame traj = (case traj of [] \<Rightarrow> Inl IndexError | snap # rest \<Rightarrow> Inr snap)"

section \<open>The labels \<^verbatim>\<open>sampled\<close> and \<^verbatim>\<open>rdfed\<close>\<close>

definition current_step :: "job \<Rightarrow> py_error + int" where
  "current_step j =
     (if isfile j ''trajectory.gsd'' then
        bind_r (open_gsd j) (\<lambda>traj.
        bind_r (last_frame traj) (\<lambda>snap. Inr (int (step snap))))
      else Inr (- 1))"

text \<open>
  \<^verbatim>\<open>current_step(job) >= job.doc.steps\<close>: the left operand is evaluated first; reading
  a key that the document does not have raises \<^verbatim>\<open>AttributeError\<close>.
\<close>

definition sampled :: "job \<Rightarrow> py_error + bool" where
  "sampled j =
     bind_r (current_step j) (\<lambda>cur.
       (case steps (doc j) of
          None \<Rightarrow> Inl AttributeError
        | Some target \<Rightarrow> Inr (cur \<ge> target)))"

definition rdfed :: "job \<Rightarrow> bool" where
  "rdfed j = isfile j ''rdf.txt''"

section \<open>The two operations and their conditions\<close>

text \<open>
  An operation as its decorators declare it: its name, the pre-conditions
  (\<^verbatim>\<open>@MyProject.pre\<close>), the post-conditions (\<^verbatim>\<open>@MyProject.post\<close>) and the directives
  (\<^verbatim>\<open>ngpu\<close>, \<^verbatim>\<open>executable\<close>). The executable of \<^verbatim>\<open>post_proc\<close> is the interpreter's
  path \<^verbatim>\<open>sys.executable\<close>, a parameter here.
\<close>

record operation =
  op_name :: string
  pre :: "(job \<Rightarrow> py_error + bool) list"
  post :: "(job \<Rightarrow> py_error + bool) list"
  ngpu :: nat
  executable :: string

definition sample_op :: operation where
  "sample_op =
     \<lparr>op_name = ''sample'', pre = [], post = [sampled], ngpu = 1,
      executable = ''singularity exec --nv $PLANCKTON_SIMG python''\<rparr>"

definition post_proc_op :: "string \<Rightarrow> operation" where
  "post_proc_op pypath =
     \<lparr>op_name = ''post_proc'', pre = [sampled], post = [(\<lambda>j. Inr (rdfed j))], ngpu = 1,
      executable = pypath\<rparr>"

text \<open>
  Modelled from the spec: the scheduler's eligibility rule, which lives in the workflow
  library and not in this repository. The spec, section 4.1: an operation is eligible
  iff every predicate in its pre-condition set evaluates true on the job and at least
  one predicate in its post-condition set evaluates false. A predicate that raises makes
  the evaluation raise.
\<close>

fun all_true :: "(job \<Rightarrow> py_error + bool) list \<Rightarrow> job \<Rightarrow> py_error + bool" where
  "all_true [] j = Inr True"
| "all_true (c # cs) j = bind_r (c j) (\<lambda>b. if b then all_true cs j else Inr False)"

fun some_false :: "(job \<Rightarrow> py_error + bool) list \<Rightarrow> job \<Rightarrow> py_error + bool" where
  "some_false [] j = Inr False"
| "some_false (c # cs) j = bind_r (c j) (\<lambda>b. if b then some_false cs j else Inr True)"

definition eligible :: "operation \<Rightarrow> job \<Rightarrow> py_error + bool" where
  "eligible opn j =
     bind_r (all_true (pre opn) j) (\<lambda>p. if p then some_false (post opn) j else Inr False)"

section \<open>The analysis operation \<^verbatim>\<open>post_proc\<close>\<close>

subsection \<open>The libraries\<close>

text \<open>
  The numerical libraries that \<^verbatim>\<open>post_proc\<close> calls are not part of the repository; they
  are parameters of the model, and each may raise:
  \<^item> \<open>gsd_rdf traj A B r_min r_max\<close> is \<^verbatim>\<open>cmeutils.structure.gsd_rdf\<close> on the trajectory
    file, returning the bin centers, the distribution and the normalisation;
  \<^item> \<open>msd_compute box mode positions\<close> is \<^verbatim>\<open>freud.msd.MSD(box, mode).compute(positions).msd\<close>;
  \<^item> \<open>linregress x y\<close> is the slope of \<^verbatim>\<open>scipy.stats.linregress(x, y)\<close>;
  \<^item> \<open>get_quaternions\<close> is the list that \<^verbatim>\<open>cmeutils.structure.get_quaternions()\<close>
    returns, and \<open>quaternion_str q\<close> is the text that \<^verbatim>\<open>"%s" % (q)\<close> gives;
  \<^item> \<open>diffraction grid_size output_size box points q\<close> is the pattern that
    \<^verbatim>\<open>freud.diffraction.DiffractionPattern\<close> computes and plots.
\<close>

record lib =
  gsd_rdf :: "frame list \<Rightarrow> string \<Rightarrow> string \<Rightarrow> real \<Rightarrow> real
                \<Rightarrow> py_error + (real list \<times> real list \<times> real)"
  msd_compute :: "real list \<Rightarrow> string \<Rightarrow> vec3 list list \<Rightarrow> py_error + real list"
  linregress :: "real list \<Rightarrow> real list \<Rightarrow> py_error + real"
  get_quaternions :: "quaternion list"
  quaternion_str :: "quaternion \<Rightarrow> string"
  diffraction :: "nat \<Rightarrow> nat \<Rightarrow> real list \<Rightarrow> vec3 list \<Rightarrow> quaternion
                    \<Rightarrow> py_error + real list list"

subsection \<open>Effects on the workspace\<close>

text \<open>
  The operation runs on a job and keeps a log of its calls that change the workspace,
  in the order in which they are made. The log is never read by the operation. An
  exception ends the operation.
\<close>

datatype event = Mkdir string | Write string content

type_synonym world = "job \<times> event list"

fun event_path :: "event \<Rightarrow> string" where
  "event_path (Mkdir p) = p"
| "event_path (Write p c) = p"

text \<open>The text before the last slash of a path; empty when there is no slash.\<close>

definition dirname :: "string \<Rightarrow> string" where
  "dirname p = rev (tl (dropWhile (\<lambda>c. c \<noteq> CHR ''/'') (rev p)))"

text \<open>
  A path can be created when its parent is a directory; the empty parent is the
  workspace itself, which exists.
\<close>

definition parent_error :: "job \<Rightarrow> string \<Rightarrow> py_error option" where
  "parent_error j p =
     (let d = dirname p in
        if d = [] then None
        else (case fs j d of
                None \<Rightarrow> Some FileNotFoundError
              | Some Dir \<Rightarrow> None
              | Some (File c) \<Rightarrow> Some NotADirectoryError))"

text \<open>\<^verbatim>\<open>os.mkdir(path)\<close>: fails when the path exists.\<close>

definition mkdir :: "string \<Rightarrow> world \<Rightarrow> py_error + world" where
  "mkdir p w =
     (case w of (j, evs) \<Rightarrow>
        (case parent_error j p of
           Some e \<Rightarrow> Inl e
         | None \<Rightarrow>
             if fs j p \<noteq> None then Inl FileExistsError
             else Inr (j\<lparr>fs := (fs j)(p \<mapsto> Dir)\<rparr>, evs @ [Mkdir p])))"

text \<open>
  \<^verbatim>\<open>os.makedirs(path)\<close>, without \<^verbatim>\<open>exist_ok\<close>: a missing parent is made first (a
  \<^verbatim>\<open>FileExistsError\<close> of that call is passed over), then the leaf is made with
  \<^verbatim>\<open>mkdir\<close>, which fails when the leaf exists.
\<close>

function makedirs :: "string \<Rightarrow> world \<Rightarrow> py_error + world" where
  "makedirs p w =
     (let head = dirname p in
        if head \<noteq> [] \<and> fs (fst w) head = None then
          (case makedirs head w of
             Inl e \<Rightarrow> if e = FileExistsError then mkdir p w else Inl e
           | Inr w' \<Rightarrow> mkdir p w')
        else mkdir p w)"
  by pat_completeness auto

termination makedirs
proof (relation "measure (\<lambda>(p, w). length p)", goal_cases)
  case 1
  show ?case by simp
next
  case (2 p w head)
  define d where "d = dropWhile (\<lambda>c. c \<noteq> CHR ''/'') (rev p)"
  have le: "length d \<le> length p"
    unfolding d_def using length_dropWhile_le [of _ "rev p"] by simp
  from 2 have "tl d \<noteq> []"
    by (simp add: dirname_def d_def)
  then have "length (tl d) < length d"
    by (cases d) simp_all
  with le 2 show ?case
    by (simp add: dirname_def d_def [symmetric])
qed

text \<open>
  Writing a file (\<^verbatim>\<open>np.savetxt\<close>, \<^verbatim>\<open>np.save\<close>, \<^verbatim>\<open>plt.savefig\<close>): the parent must be a
  directory and the path must not be one; an existing file is replaced.
\<close>

definition write_file :: "string \<Rightarrow> content \<Rightarrow> world \<Rightarrow> py_error + world" where
  "write_file p c w =
     (case w of (j, evs) \<Rightarrow>
        (case parent_error j p of
           Some e \<Rightarrow> Inl e
         | None \<Rightarrow>
             if fs j p = Some Dir then Inl IsADirectoryError
             else Inr (j\<lparr>fs := (fs j)(p \<mapsto> File c)\<rparr>, evs @ [Write p c])))"

subsection \<open>The mean squared displacement of one particle type\<close>

text \<open>A slice \<^verbatim>\<open>xs[start:stop]\<close>, where a negative index counts from the end.\<close>

definition slice_index :: "nat \<Rightarrow> int \<Rightarrow> nat" where
  "slice_index n i = (if i < 0 then nat (max 0 (int n + i)) else min n (nat i))"

definition py_slice :: "int \<Rightarrow> int \<Rightarrow> 'a list \<Rightarrow> 'a list" where
  "py_slice start stop xs =
     (let a = slice_index (length xs) start; b = slice_index (length xs) stop
      in take (b - a) (drop a xs))"

text \<open>\<^verbatim>\<open>xs.index(x)\<close>: the first position of \<open>x\<close>, or \<^verbatim>\<open>ValueError\<close>.\<close>

fun index_of :: "'a list \<Rightarrow> 'a \<Rightarrow> py_error + nat" where
  "index_of [] x = Inl ValueError"
| "index_of (y # ys) x = (if y = x then Inr 0 else bind_r (index_of ys x) (\<lambda>i. Inr (Suc i)))"

text \<open>
  \<^verbatim>\<open>atom_type_pos(snap, atom_type)\<close> for one type name: the positions of the particles
  whose type id is the index of the name in the frame's list of types.
\<close>

definition atom_type_pos :: "frame \<Rightarrow> string \<Rightarrow> py_error + vec3 list" where
  "atom_type_pos snap atom_type =
     bind_r (index_of (types snap) atom_type) (\<lambda>i.
       Inr (map snd (filter (\<lambda>tp. fst tp = i) (zip (typeid snap) (position snap)))))"

text \<open>
  The loop of \<^verbatim>\<open>msd_from_gsd\<close> over the frames of the slice. The \<^verbatim>\<open>append\<close> stands in
  the \<^verbatim>\<open>else\<close> branch, so for the type name \<^verbatim>\<open>all\<close> nothing is collected.
\<close>

fun collect_positions :: "frame list \<Rightarrow> string \<Rightarrow> py_error + vec3 list list" where
  "collect_positions [] atom_type = Inr []"
| "collect_positions (frame # frames) atom_type =
     (if atom_type = ''all'' then collect_positions frames atom_type
      else
        bind_r (atom_type_pos frame atom_type) (\<lambda>atom_positions.
        bind_r (collect_positions frames atom_type) (\<lambda>positions.
          Inr (atom_positions # positions))))"

definition msd_of_trajectory ::
  "lib \<Rightarrow> frame list \<Rightarrow> int \<Rightarrow> int \<Rightarrow> string \<Rightarrow> string \<Rightarrow> py_error + real list" where
  "msd_of_trajectory l trajectory start stop atom_type msd_mode =
     bind_r (collect_positions (py_slice start stop trajectory) atom_type) (\<lambda>positions.
     bind_r (last_frame trajectory) (\<lambda>snap.
       msd_compute l (box snap) msd_mode positions))"

definition msd_from_gsd ::
  "lib \<Rightarrow> job \<Rightarrow> int \<Rightarrow> int \<Rightarrow> string \<Rightarrow> string \<Rightarrow> py_error + real list" where
  "msd_from_gsd l j start stop atom_type msd_mode =
     bind_r (open_gsd j) (\<lambda>trajectory.
       msd_of_trajectory l trajectory start stop atom_type msd_mode)"

subsection \<open>The loop over the particle types\<close>

text \<open>\<^verbatim>\<open>np.transpose([x, y])\<close>: the rows of a table with the two columns.\<close>

definition transpose2 :: "real list \<Rightarrow> real list \<Rightarrow> py_error + (real \<times> real) list" where
  "transpose2 x y = (if length x = length y then Inr (zip x y) else Inl ValueError)"

definition rdf_txt_path :: "string \<Rightarrow> string" where
  "rdf_txt_path t = ''rdf/rdf_txt_files/'' @ t @ ''_rdf.txt''"

definition rdf_png_path :: "string \<Rightarrow> string" where
  "rdf_png_path t = ''rdf/rdf_png_files/'' @ t @ ''_rdf.png''"

definition msd_npy_path :: "string \<Rightarrow> string" where
  "msd_npy_path t = ''msd/msd_npy_files/'' @ t @ ''.npy''"

text \<open>
  The state of the loop: the world, the dictionary \<open>slopes\<close> and the curves drawn so far
  on figure 2, which every round selects again and saves as \<^verbatim>\<open>msd/msd.png\<close>. The figure
  of the distribution is a new one in every round.
\<close>

type_synonym loop_state = "world \<times> (string \<rightharpoonup> real) \<times> curve list"

definition type_body :: "lib \<Rightarrow> string \<Rightarrow> loop_state \<Rightarrow> py_error + loop_state" where
  "type_body l t st =
     (case st of (w, slopes, curves) \<Rightarrow>
        bind_r (open_gsd (fst w)) (\<lambda>traj.
        bind_r (gsd_rdf l traj t t (1 / 100) 5) (\<lambda>(bin_centers, rdf, norm).
          let x = bin_centers; y = map (\<lambda>v. v * norm) rdf in
        bind_r (transpose2 x y) (\<lambda>rows.
        bind_r (write_file (rdf_txt_path t) (TextTable ''bin_centers, rdf'' '','' rows) w) (\<lambda>w.
        bind_r (write_file (rdf_png_path t) (Figure [(None, x, y)]) w) (\<lambda>w.
        bind_r (msd_from_gsd l (fst w) (- 30) (- 1) t ''window'') (\<lambda>msd_array.
        bind_r (write_file (msd_npy_path t) (NpyArray msd_array) w) (\<lambda>w.
          let curves' = curves @ [(Some t, map real [0..<length msd_array], msd_array)] in
        bind_r (write_file ''msd/msd.png'' (Figure curves') w) (\<lambda>w.
        bind_r (msd_from_gsd l (fst w) (- 25) (- 9) t ''window'') (\<lambda>msd_slope_array.
          let x = map real [0..<length msd_slope_array]; y = msd_slope_array in
        bind_r (linregress l x y) (\<lambda>slope.
          Inr (w, slopes(t \<mapsto> slope), curves'))))))))))))"

fun type_loop :: "lib \<Rightarrow> string list \<Rightarrow> loop_state \<Rightarrow> py_error + loop_state" where
  "type_loop l [] st = Inr st"
| "type_loop l (t # ts) st = bind_r (type_body l t st) (type_loop l ts)"

subsection \<open>The diffraction patterns\<close>

definition diffraction_path :: "lib \<Rightarrow> quaternion \<Rightarrow> string" where
  "diffraction_path l q = ''diffraction_plots/'' @ quaternion_str l q @ ''.png''"

fun diffraction_loop ::
  "lib \<Rightarrow> real list \<Rightarrow> vec3 list \<Rightarrow> quaternion list \<Rightarrow> world \<times> quaternion list
     \<Rightarrow> py_error + world \<times> quaternion list" where
  "diffraction_loop l bx points [] st = Inr st"
| "diffraction_loop l bx points (q # qs) st =
     (case st of (w, q_list) \<Rightarrow>
        bind_r (diffraction l 1024 1024 bx points q) (\<lambda>pattern.
        bind_r (write_file (diffraction_path l q) (DiffractionFigure pattern) w) (\<lambda>w.
          diffraction_loop l bx points qs (w, q_list @ [q]))))"

definition diffraction_stage :: "lib \<Rightarrow> world \<Rightarrow> py_error + world" where
  "diffraction_stage l w =
     bind_r (open_gsd (fst w)) (\<lambda>f.
     bind_r (last_frame f) (\<lambda>snap.
       let points = position snap; bx = box snap in
     bind_r (mkdir ''diffraction_plots'' w) (\<lambda>w.
     bind_r (diffraction_loop l bx points (get_quaternions l) (w, [])) (\<lambda>(w, q_list).
       write_file ''dp.npy'' (NpyQuaternions q_list) w))))"

subsection \<open>The operation\<close>

definition set_msd_slopes :: "(string \<rightharpoonup> real) \<Rightarrow> world \<Rightarrow> world" where
  "set_msd_slopes slopes w =
     (case w of (j, evs) \<Rightarrow> (j\<lparr>doc := (doc j)\<lparr>msd_slopes := Some slopes\<rparr>\<rparr>, evs))"

definition rdf_msd_stage :: "lib \<Rightarrow> world \<Rightarrow> py_error + world" where
  "rdf_msd_stage l w =
     bind_r (open_gsd (fst w)) (\<lambda>f.
     bind_r (first_frame f) (\<lambda>snap.
       let all_atoms = types snap in
     bind_r (makedirs ''rdf/rdf_txt_files'' w) (\<lambda>w.
     bind_r (makedirs ''rdf/rdf_png_files'' w) (\<lambda>w.
     bind_r (makedirs ''msd/msd_npy_files'' w) (\<lambda>w.
     bind_r (type_loop l all_atoms (w, Map.empty, [])) (\<lambda>(w, slopes, curves).
       Inr (set_msd_slopes slopes w)))))))"

definition post_proc :: "lib \<Rightarrow> job \<Rightarrow> py_error + world" where
  "post_proc l j = bind_r (rdf_msd_stage l (j, [])) (diffraction_stage l)"

section \<open>Notions used in the statements\<close>

subsection \<open>The contribution of one log file\<close>

text \<open>
  What one log file gives to the two aggregates of \<^verbatim>\<open>get_tps_time\<close>: its throughput
  value when it has a throughput line, and its seconds when it has a throughput line
  and a time line whose second field exists and parses. A file is \<open>malformed\<close> when
  parsing its last time line raises an exception that the handler does not catch.
\<close>

definition has_tps :: "string list \<Rightarrow> bool" where
  "has_tps f = (tps_lines f \<noteq> [])"

definition file_tps :: "string list \<Rightarrow> string" where
  "file_tps f = parse_tps (last (tps_lines f))"

definition file_seconds :: "string list \<Rightarrow> int option" where
  "file_seconds f =
     (if tps_lines f = [] \<or> time_lines f = [] then None
      else (case parse_time (last (time_lines f)) of Inl e \<Rightarrow> None | Inr secs \<Rightarrow> Some secs))"

definition malformed :: "string list \<Rightarrow> bool" where
  "malformed f =
     (tps_lines f \<noteq> [] \<and> time_lines f \<noteq> [] \<and>
      (case parse_time (last (time_lines f)) of
         Inl e \<Rightarrow> e \<noteq> IndexError
       | Inr secs \<Rightarrow> False))"

text \<open>
  The reading of the specification: the seconds of every file that has a time line,
  whether or not it has a throughput line.
\<close>

definition spec_file_seconds :: "string list \<Rightarrow> int option" where
  "spec_file_seconds f =
     (if time_lines f = [] then None
      else (case parse_time (last (time_lines f)) of Inl e \<Rightarrow> None | Inr secs \<Rightarrow> Some secs))"

subsection \<open>Example inputs\<close>

text \<open>
  The two log files of the specification's example, a log with a time line only, and a
  log of an analysis run without any marker.
\<close>

definition time_only_log :: "string list" where
  "time_only_log = [''Time 01:00:00'' @ [CHR 0x0A]]"

definition simulation_log :: "string list" where
  "simulation_log = [''Average TPS: 120'' @ [CHR 0x0A], ''Time 00:30:15'' @ [CHR 0x0A]]"

definition analysis_log :: "string list" where
  "analysis_log = [''computing rdf'' @ [CHR 0x0A], ''done'' @ [CHR 0x0A]]"

definition example_logs :: "string list list" where
  "example_logs = [time_only_log, simulation_log]"

text \<open>
  A job whose trajectory has eleven frames, the last at step 50, whose document asks for 10
  steps and whose statepoint asks for 100; and a job with an empty workspace.
\<close>

definition example_frame :: "nat \<Rightarrow> frame" where
  "example_frame n =
     \<lparr>step = n, box = [10, 10, 10, 0, 0, 0], types = [''A''], typeid = [0, 0],
      position = [(0, 0, real n), (1, 1, 1)]\<rparr>"

definition example_sp :: statepoint where
  "example_sp =
     \<lparr>input = [''PCPDTBT''], forcefield = ''gaff'', n_compounds = [1],
      density = ''1 g/cm**3'', remove_hydrogens = False, kT_reduced = 1, e_factor = 1 / 2,
      n_steps = 100, shrink_steps = 10, tau = 1, dt = 1 / 1000, mode = ''gpu''\<rparr>"

definition example_traj :: "frame list" where
  "example_traj =
     [example_frame 0, example_frame 5, example_frame 10, example_frame 15, example_frame 20,
      example_frame 25, example_frame 30, example_frame 35, example_frame 40, example_frame 45,
      example_frame 50]"

definition example_job :: job where
  "example_job =
     \<lparr>sp = example_sp, doc = \<lparr>steps = Some 10, msd_slopes = None\<rparr>,
      fs = [''trajectory.gsd'' \<mapsto> File (GsdTrajectory example_traj)]\<rparr>"

definition fresh_job :: job where
  "fresh_job =
     \<lparr>sp = example_sp, doc = \<lparr>steps = Some 10, msd_slopes = None\<rparr>, fs = Map.empty\<rparr>"

subsection \<open>Events and paths of the analysis\<close>

text \<open>
  The paths that the loop over the types \<open>ts\<close> writes, the directories that the first
  stage makes, the paths on the side of the diffraction stage, and all output paths of
  the operation: the names \<^verbatim>\<open>rdf\<close>, \<^verbatim>\<open>msd\<close>, \<^verbatim>\<open>diffraction_plots\<close> and \<^verbatim>\<open>dp.npy\<close> and
  everything below the three directories.
\<close>

definition type_path :: "string list \<Rightarrow> string \<Rightarrow> bool" where
  "type_path ts p \<longleftrightarrow>
     p = ''msd/msd.png'' \<or>
     (\<exists>t\<in>set ts. p = rdf_txt_path t \<or> p = rdf_png_path t \<or> p = msd_npy_path t)"

definition out_dirs :: "string set" where
  "out_dirs = {''rdf'', ''rdf/rdf_txt_files'', ''rdf/rdf_png_files'', ''msd'', ''msd/msd_npy_files''}"

definition diffraction_side :: "string \<Rightarrow> bool" where
  "diffraction_side p \<longleftrightarrow>
     p = ''diffraction_plots'' \<or> p = ''dp.npy'' \<or> startswith ''diffraction_plots/'' p"

definition in_outputs :: "string \<Rightarrow> bool" where
  "in_outputs p \<longleftrightarrow>
     p = ''rdf'' \<or> p = ''msd'' \<or> p = ''diffraction_plots'' \<or> p = ''dp.npy'' \<or>
     startswith ''rdf/'' p \<or> startswith ''msd/'' p \<or> startswith ''diffraction_plots/'' p"

definition is_write :: "event \<Rightarrow> bool" where
  "is_write e = (case e of Write p c \<Rightarrow> True | Mkdir p \<Rightarrow> False)"

text \<open>The event of saving the image of one orientation with its pattern.\<close>

definition diffraction_event :: "lib \<Rightarrow> quaternion \<times> real list list \<Rightarrow> event" where
  "diffraction_event l qp = Write (diffraction_path l (fst qp)) (DiffractionFigure (snd qp))"

text \<open>
  The reading of the specification for the directories: every directory is made before
  the first file is written, that is, after the first write of the log no directory is
  made.
\<close>

definition dirs_first :: "event list \<Rightarrow> bool" where
  "dirs_first evs = list_all is_write (dropWhile (\<lambda>e. \<not> is_write e) evs)"

definition dirs_created_first :: "lib \<Rightarrow> job \<Rightarrow> py_error + bool" where
  "dirs_created_first l j = bind_r (post_proc l j) (\<lambda>w. Inr (dirs_first (snd w)))"

text \<open>The node at a path of the workspace after the operation has run.\<close>

definition node_after :: "lib \<Rightarrow> job \<Rightarrow> string \<Rightarrow> py_error + node option" where
  "node_after l j p = bind_r (post_proc l j) (\<lambda>w. Inr (fs (fst w) p))"

definition succeeds :: "py_error + 'a \<Rightarrow> bool" where
  "succeeds r = (case r of Inl e \<Rightarrow> False | Inr v \<Rightarrow> True)"

definition fails_with :: "py_error \<Rightarrow> py_error + 'a \<Rightarrow> bool" where
  "fails_with err r = (case r of Inl e \<Rightarrow> e = err | Inr v \<Rightarrow> False)"

subsection \<open>What a run of the analysis leaves for one particle type\<close>

text \<open>
  For a type \<open>t\<close> and the trajectory \<open>traj\<close>: the distribution of \<open>t\<close> with itself over
  the window from 0.01 to 5 is in the workspace \<open>j'\<close> as a table and as a figure; the
  series of the frames \<^verbatim>\<open>[-30:-1]\<close> is there as an array and among the curves, and the
  slope fitted to the series of the frames \<^verbatim>\<open>[-25:-9]\<close> is in \<open>slopes'\<close>.
\<close>

definition rdf_done :: "lib \<Rightarrow> frame list \<Rightarrow> job \<Rightarrow> string \<Rightarrow> bool" where
  "rdf_done l traj j' t \<longleftrightarrow>
     (\<exists>bc rdf norm.
        gsd_rdf l traj t t (1 / 100) 5 = Inr (bc, rdf, norm) \<and>
        length bc = length rdf \<and>
        fs j' (rdf_txt_path t) =
          Some (File (TextTable ''bin_centers, rdf'' '','' (zip bc (map (\<lambda>v. v * norm) rdf)))) \<and>
        fs j' (rdf_png_path t) = Some (File (Figure [(None, bc, map (\<lambda>v. v * norm) rdf)])))"

definition msd_done ::
  "lib \<Rightarrow> frame list \<Rightarrow> job \<Rightarrow> (string \<rightharpoonup> real) \<Rightarrow> curve list \<Rightarrow> string \<Rightarrow> bool" where
  "msd_done l traj j' slopes' curves' t \<longleftrightarrow>
     (\<exists>full short slope.
        msd_of_trajectory l traj (- 30) (- 1) t ''window'' = Inr full \<and>
        msd_of_trajectory l traj (- 25) (- 9) t ''window'' = Inr short \<and>
        linregress l (map real [0..<length short]) short = Inr slope \<and>
        fs j' (msd_npy_path t) = Some (File (NpyArray full)) \<and>
        slopes' t = Some slope \<and>
        (Some t, map real [0..<length full], full) \<in> set curves')"

text \<open>
  Everything that is shown below of a run of \<^verbatim>\<open>post_proc\<close> on \<open>j\<close> that returned the job
  \<open>j'\<close> and the log \<open>evs\<close>, collected in one predicate.
\<close>

definition run_facts ::
  "lib \<Rightarrow> job \<Rightarrow> job \<Rightarrow> event list \<Rightarrow> frame list \<Rightarrow> frame \<Rightarrow> (string \<rightharpoonup> real) \<Rightarrow> curve list
     \<Rightarrow> event list \<Rightarrow> event list \<Rightarrow> real list list list \<Rightarrow> bool" where
  "run_facts l j j' evs traj snap slopes curves ds es patterns \<longleftrightarrow>
     open_gsd j = Inr traj \<and> first_frame traj = Inr snap \<and>
     evs = ds @ es @ [Mkdir ''diffraction_plots''] @
       map (diffraction_event l) (zip (get_quaternions l) patterns) @
       [Write ''dp.npy'' (NpyQuaternions (get_quaternions l))] \<and>
     (\<forall>e\<in>set ds. \<not> is_write e \<and> event_path e \<in> out_dirs) \<and>
     Mkdir ''rdf/rdf_txt_files'' \<in> set ds \<and> Mkdir ''rdf/rdf_png_files'' \<in> set ds \<and>
     Mkdir ''msd/msd_npy_files'' \<in> set ds \<and>
     length es = 4 * length (types snap) \<and>
     (\<forall>e\<in>set es. is_write e \<and> type_path (types snap) (event_path e)) \<and>
     map (diffraction l 1024 1024 (box (last traj)) (position (last traj))) (get_quaternions l)
       = map Inr patterns \<and>
     (\<forall>p. \<not> in_outputs p \<longrightarrow> fs j' p = fs j p) \<and>
     sp j' = sp j \<and> doc j' = (doc j)\<lparr>msd_slopes := Some slopes\<rparr> \<and>
     dom slopes = set (types snap) \<and>
     (\<forall>t\<in>set (types snap). rdf_done l traj j' t \<and> msd_done l traj j' slopes curves t) \<and>
     (types snap \<noteq> [] \<longrightarrow> fs j' ''msd/msd.png'' = Some (File (Figure curves))) \<and>
     fs j' ''dp.npy'' = Some (File (NpyQuaternions (get_quaternions l))) \<and>
     fs j ''rdf/rdf_txt_files'' = None \<and> fs j ''rdf/rdf_png_files'' = None \<and>
     fs j ''msd/msd_npy_files'' = None \<and> fs j ''diffraction_plots'' = None"

subsection \<open>Example libraries and jobs for the analysis\<close>

text \<open>
  Libraries that return small fixed results, with two orientations; and the example job
  after a run has left the directory \<^verbatim>\<open>diffraction_plots\<close> behind.
\<close>

definition example_lib :: lib where
  "example_lib =
     \<lparr>gsd_rdf = (\<lambda>traj a b r_min r_max. Inr ([r_min, r_max], [1, 2], 2)),
      msd_compute = (\<lambda>bx m positions. Inr (map (\<lambda>p. real (length p)) positions)),
      linregress = (\<lambda>x y. Inr (real (length x))),
      get_quaternions = [(1, 0, 0, 0), (0, 1, 0, 0)],
      quaternion_str = (\<lambda>q. if fst q = 1 then ''[1 0 0 0]'' else ''[0 1 0 0]''),
      diffraction = (\<lambda>g s bx pts q. Inr [[real g, real s]])\<rparr>"

definition rerun_job :: job where
  "rerun_job = example_job\<lparr>fs := (fs example_job)(''diffraction_plots'' \<mapsto> Dir)\<rparr>"

section \<open>Properties of the throughput parser\<close>

lemma bind_r_Inr [simp]: "bind_r (Inr v) f = f v"
  by (simp add: bind_r_def)

lemma bind_r_Inl [simp]: "bind_r (Inl e) f = Inl e"
  by (simp add: bind_r_def)

lemma bind_r_eq_Inr: "bind_r m f = Inr r \<longleftrightarrow> (\<exists>v. m = Inr v \<and> f v = Inr r)"
  by (cases m) simp_all

lemma process_file_skip: "tps_lines f = [] \<Longrightarrow> process_file f st = Inr st"
  by (simp add: process_file_def split: prod.splits)

lemma process_file_ok:
  assumes "\<not> malformed f"
  shows "process_file f (tps, tms) =
           Inr (if has_tps f then Some (file_tps f) else tps,
                tms @ (case file_seconds f of None \<Rightarrow> [] | Some secs \<Rightarrow> [secs]))"
proof (cases "tps_lines f")
  case Nil
  then show ?thesis
    by (simp add: process_file_def has_tps_def file_seconds_def)
next
  case tl: (Cons l ls)
  show ?thesis
  proof (cases "time_lines f")
    case Nil
    with tl show ?thesis
      by (simp add: process_file_def has_tps_def file_seconds_def file_tps_def)
  next
    case tm: (Cons t ts)
    show ?thesis
    proof (cases "parse_time (last (time_lines f))")
      case (Inl e)
      with assms tl tm have "e = IndexError"
        by (simp add: malformed_def del: last.simps)
      with Inl tl tm show ?thesis
        by (simp add: process_file_def has_tps_def file_seconds_def file_tps_def
                 del: last.simps)
    next
      case (Inr secs)
      with tl tm show ?thesis
        by (simp add: process_file_def has_tps_def file_seconds_def file_tps_def
                 del: last.simps)
    qed
  qed
qed

lemma process_files_ok:
  assumes "\<forall>f\<in>set files. \<not> malformed f"
  shows "process_files files (tps, tms) =
           Inr (case filter has_tps files of
                  [] \<Rightarrow> tps
                | g # gs \<Rightarrow> Some (file_tps (last (g # gs))),
                tms @ List.map_filter file_seconds files)"
  using assms
proof (induction files arbitrary: tps tms)
  case Nil
  then show ?case by (simp add: List.map_filter_simps)
next
  case (Cons f fs)
  then have f: "\<not> malformed f" and fs: "\<forall>f\<in>set fs. \<not> malformed f" by simp_all
  show ?case
    by (simp add: process_file_ok [OF f] Cons.IH [OF fs] List.map_filter_simps
             split: list.splits option.splits)
qed

lemma process_files_append:
  "process_files (xs @ ys) st = bind_r (process_files xs st) (process_files ys)"
proof (induction xs arbitrary: st)
  case Nil
  then show ?case by simp
next
  case (Cons x xs)
  then show ?case by (cases "process_file x st") simp_all
qed

lemma wrap_int64_id: "in_int64 x \<Longrightarrow> wrap_int64 x = x"
  by (simp add: in_int64_def wrap_int64_def)

lemma np_sum_in_range:
  assumes "tms \<noteq> []" and "\<forall>t\<in>set tms. in_int64 t" and "in_int64 (sum_list tms)"
  shows "np_sum tms = IntTotal (sum_list tms)"
  using assms by (simp add: np_sum_def list_all_iff wrap_int64_id)

text \<open>
  Claim C1, as amended. For every list of log files of which none is malformed, one has
  a throughput line, one has both a throughput line and a time line that parses, and the
  seconds of each file and their sum fit a signed 64-bit integer: \<^verbatim>\<open>get_tps_time\<close>
  returns, as throughput, the value parsed from the last file that has a throughput
  line, and, as total time, the sum of the seconds of the files that have both a
  throughput line and a time line, rendered as \<^verbatim>\<open>HH:MM:SS\<close>. A file with a time line
  and no throughput line adds nothing to the total.
\<close>

theorem get_tps_time_aggregate:
  assumes "\<forall>f\<in>set files. \<not> malformed f"
    and "filter has_tps files \<noteq> []"
    and "List.map_filter file_seconds files \<noteq> []"
    and "\<forall>t\<in>set (List.map_filter file_seconds files). in_int64 t"
    and "in_int64 (sum_list (List.map_filter file_seconds files))"
  shows "get_tps_time files =
           Inr (file_tps (last (filter has_tps files)),
                render_time (sum_list (List.map_filter file_seconds files)))"
  using assms(2)
  by (simp add: get_tps_time_def process_files_ok [OF assms(1)]
        np_sum_in_range [OF assms(3,4,5)] split: list.splits)

text \<open>
  On the two files of the specification's example the theorem gives the throughput
  \<^verbatim>\<open>120\<close> and the total time \<^verbatim>\<open>00:30:15\<close>.
\<close>

theorem get_tps_time_aggregate_witness:
  "get_tps_time example_logs = Inr (''120'', ''00:30:15'')"
proof -
  have m: "\<forall>f\<in>set example_logs. \<not> malformed f" by code_simp
  have t: "filter has_tps example_logs \<noteq> []" by code_simp
  have s: "List.map_filter file_seconds example_logs \<noteq> []" by code_simp
  have b: "\<forall>t\<in>set (List.map_filter file_seconds example_logs). in_int64 t" by code_simp
  have c: "in_int64 (sum_list (List.map_filter file_seconds example_logs))" by code_simp
  have r: "Inr (file_tps (last (filter has_tps example_logs)),
                render_time (sum_list (List.map_filter file_seconds example_logs)))
           = (Inr (''120'', ''00:30:15'') :: py_error + string \<times> string)" by code_simp
  show ?thesis using get_tps_time_aggregate [OF m t s b c] r by simp
qed

text \<open>
  Claim C1 as the specification states it fails on its own example: the sum over all
  files with a time line renders as \<^verbatim>\<open>01:30:15\<close>, and the code returns \<^verbatim>\<open>00:30:15\<close>,
  since the first file has no throughput line and its time line is never read.
\<close>

theorem get_tps_time_example_counterexample:
  "get_tps_time example_logs = Inr (''120'', ''00:30:15'') \<and>
   render_time (sum_list (List.map_filter spec_file_seconds example_logs)) = ''01:30:15'' \<and>
   get_tps_time example_logs \<noteq> Inr (''120'', ''01:30:15'')"
  by code_simp

text \<open>
  Claim C4. A log file with neither a throughput line nor a time line is skipped: the
  round of the loop on it returns the loop's variables unchanged and raises nothing,
  and the result of \<^verbatim>\<open>get_tps_time\<close> on a list with the file is its result on the list
  without it.
\<close>

theorem get_tps_time_skips_unmarked:
  assumes "tps_lines f = []" and "time_lines f = []"
  shows "process_file f st = Inr st \<and>
         get_tps_time (fs1 @ f # fs2) = get_tps_time (fs1 @ fs2)"
proof -
  have skip: "process_file f s = Inr s" for s
    using assms(1) by (rule process_file_skip)
  have "process_files (fs1 @ f # fs2) s = process_files (fs1 @ fs2) s" for s
    by (cases "process_files fs1 s") (simp_all add: process_files_append skip)
  then show ?thesis
    by (simp add: get_tps_time_def skip)
qed

theorem get_tps_time_skips_unmarked_witness:
  "process_file analysis_log (Some ''120'', [1815]) = Inr (Some ''120'', [1815]) \<and>
   get_tps_time ([simulation_log] @ analysis_log # [simulation_log]) = Inr (''120'', ''01:00:30'')"
proof -
  have a: "tps_lines analysis_log = []" by code_simp
  have b: "time_lines analysis_log = []" by code_simp
  have c: "get_tps_time ([simulation_log] @ [simulation_log]) = Inr (''120'', ''01:00:30'')"
    by code_simp
  from get_tps_time_skips_unmarked [OF a b, of "(Some ''120'', [1815])" "[simulation_log]"
      "[simulation_log]"] c
  show ?thesis by simp
qed

text \<open>
  Claim C10. When no file of the list has a throughput line, \<^verbatim>\<open>get_tps_time\<close> returns
  nothing: it raises \<^verbatim>\<open>UnboundLocalError\<close>, whether or not files have time lines.
\<close>

theorem get_tps_time_unbound:
  assumes "\<forall>f\<in>set files. tps_lines f = []"
  shows "get_tps_time files = Inl UnboundLocalError"
proof -
  have "process_files files st = Inr st" for st
    using assms by (induction files) (simp_all add: process_file_skip)
  then show ?thesis by (simp add: get_tps_time_def)
qed

theorem get_tps_time_unbound_witness:
  "time_lines time_only_log \<noteq> [] \<and>
   get_tps_time [time_only_log, analysis_log] = Inl UnboundLocalError"
proof -
  have a: "\<forall>f\<in>set [time_only_log, analysis_log]. tps_lines f = []" by code_simp
  have b: "time_lines time_only_log \<noteq> []" by code_simp
  from get_tps_time_unbound [OF a] b show ?thesis by simp
qed

section \<open>Properties of the labels and of the operations' conditions\<close>

text \<open>
  Claim C2, as amended. The target of \<^verbatim>\<open>sampled\<close> is the key \<^verbatim>\<open>steps\<close> of the job
  document: for a job whose trajectory file has frames and whose document has the key,
  \<^verbatim>\<open>sampled\<close> is true exactly when the step of the last frame is at least that target.
  For a job without a trajectory file \<^verbatim>\<open>current_step\<close> returns \<open>-1\<close>, which it returns
  for no job that has a trajectory file.
\<close>

theorem sampled_document_target:
  "(\<forall>traj target.
      fs j ''trajectory.gsd'' = Some (File (GsdTrajectory traj)) \<and> traj \<noteq> [] \<and>
      steps (doc j) = Some target \<longrightarrow>
      sampled j = Inr (int (step (last traj)) \<ge> target)) \<and>
   (\<not> isfile j ''trajectory.gsd'' \<longrightarrow>
      current_step j = Inr (- 1) \<and>
      (\<forall>j'. isfile j' ''trajectory.gsd'' \<longrightarrow> current_step j' \<noteq> Inr (- 1)))"
proof (intro conjI allI impI)
  fix traj target
  assume "fs j ''trajectory.gsd'' = Some (File (GsdTrajectory traj)) \<and> traj \<noteq> [] \<and>
      steps (doc j) = Some target"
  then show "sampled j = Inr (int (step (last traj)) \<ge> target)"
    by (simp add: sampled_def current_step_def isfile_def open_gsd_def last_frame_def)
next
  assume "\<not> isfile j ''trajectory.gsd''"
  then show "current_step j = Inr (- 1)"
    by (simp add: current_step_def)
next
  fix j'
  assume "isfile j' ''trajectory.gsd''"
  then show "current_step j' \<noteq> Inr (- 1)"
    by (auto simp: current_step_def isfile_def open_gsd_def last_frame_def bind_r_def
             split: option.splits node.splits content.splits sum.splits if_splits)
qed

theorem sampled_document_target_witness:
  "sampled example_job = Inr True \<and> current_step fresh_job = Inr (- 1) \<and>
   current_step example_job \<noteq> Inr (- 1)"
proof -
  have a: "fs example_job ''trajectory.gsd'' = Some (File (GsdTrajectory example_traj)) \<and>
           example_traj \<noteq> [] \<and> steps (doc example_job) = Some 10"
    by (simp add: example_job_def example_traj_def)
  have b: "\<not> isfile fresh_job ''trajectory.gsd''"
    by (simp add: isfile_def fresh_job_def)
  have c: "isfile example_job ''trajectory.gsd''"
    by (simp add: isfile_def example_job_def)
  from sampled_document_target [of example_job] a
  have 1: "sampled example_job = Inr (int (step (last example_traj)) \<ge> 10)"
    by blast
  from sampled_document_target [of fresh_job] b c
  have 2: "current_step fresh_job = Inr (- 1)" and 3: "current_step example_job \<noteq> Inr (- 1)"
    by blast+
  from 1 2 3 show ?thesis by (simp add: example_frame_def example_traj_def)
qed

text \<open>
  Claim C2 as the specification states it, with the target taken from the statepoint,
  fails: the example job is sampled, with its last frame at step 50 and a statepoint
  that asks for 100 steps.
\<close>

theorem sampled_statepoint_counterexample:
  "sampled example_job = Inr True \<and>
   fs example_job ''trajectory.gsd'' = Some (File (GsdTrajectory example_traj)) \<and>
   \<not> (int (step (last example_traj)) \<ge> n_steps (sp example_job))"
  by (simp add: sampled_def current_step_def isfile_def open_gsd_def last_frame_def
        example_job_def example_traj_def example_frame_def example_sp_def)

text \<open>
  Claim C3. The operation \<^verbatim>\<open>sample\<close> has no pre-condition and is eligible exactly when
  \<^verbatim>\<open>sampled\<close> is false; \<^verbatim>\<open>post_proc\<close> is eligible exactly when \<^verbatim>\<open>sampled\<close> is true and
  \<^verbatim>\<open>rdfed\<close> is false; whenever \<^verbatim>\<open>sampled\<close> returns, these two values are all there is,
  and the two operations are never eligible together.
\<close>

theorem two_stage_eligibility:
  "(eligible sample_op j = Inr True \<longleftrightarrow> sampled j = Inr False) \<and>
   (eligible (post_proc_op pypath) j = Inr True \<longleftrightarrow> sampled j = Inr True \<and> \<not> rdfed j) \<and>
   pre sample_op = [] \<and>
   (\<forall>s. sampled j = Inr s \<longrightarrow>
      eligible sample_op j = Inr (\<not> s) \<and>
      eligible (post_proc_op pypath) j = Inr (s \<and> \<not> rdfed j)) \<and>
   \<not> (eligible sample_op j = Inr True \<and> eligible (post_proc_op pypath) j = Inr True)"
  by (cases "sampled j") (auto simp: eligible_def sample_op_def post_proc_op_def)

theorem two_stage_eligibility_witness:
  "eligible sample_op example_job = Inr False \<and>
   eligible (post_proc_op ''/usr/bin/python'') example_job = Inr True \<and>
   eligible sample_op fresh_job = Inr True \<and>
   eligible (post_proc_op ''/usr/bin/python'') fresh_job = Inr False"
proof -
  have s1: "sampled example_job = Inr True"
    by (simp add: sampled_def current_step_def isfile_def open_gsd_def last_frame_def
          example_job_def example_traj_def example_frame_def)
  have r1: "\<not> rdfed example_job"
    by (simp add: rdfed_def isfile_def example_job_def)
  have s2: "sampled fresh_job = Inr False"
    by (simp add: sampled_def current_step_def isfile_def fresh_job_def)
  have r2: "\<not> rdfed fresh_job"
    by (simp add: rdfed_def isfile_def fresh_job_def)
  from two_stage_eligibility [of example_job "''/usr/bin/python''"] s1 r1
    two_stage_eligibility [of fresh_job "''/usr/bin/python''"] s2 r2
  show ?thesis by auto
qed

section \<open>Properties of the analysis: the effects of its steps\<close>

declare makedirs.simps [simp del]

lemma bind_rE:
  assumes "bind_r m f = Inr r"
  obtains v where "m = Inr v" and "f v = Inr r"
  using assms by (cases m) simp_all

lemma write_file_Inr:
  "write_file p c (j, evs) = Inr w' \<longleftrightarrow>
     parent_error j p = None \<and> fs j p \<noteq> Some Dir \<and>
     w' = (j\<lparr>fs := (fs j)(p \<mapsto> File c)\<rparr>, evs @ [Write p c])"
  by (auto simp: write_file_def split: option.splits)

lemma mkdir_Inr:
  "mkdir p (j, evs) = Inr w' \<longleftrightarrow>
     parent_error j p = None \<and> fs j p = None \<and>
     w' = (j\<lparr>fs := (fs j)(p \<mapsto> Dir)\<rparr>, evs @ [Mkdir p])"
  by (auto simp: mkdir_def split: option.splits)

lemma makedirs_two:
  assumes "dirname p = h" and "h \<noteq> []" and "dirname h = []"
  shows "makedirs p (j, evs) =
           (if fs j h = None then mkdir p (j\<lparr>fs := (fs j)(h \<mapsto> Dir)\<rparr>, evs @ [Mkdir h])
            else mkdir p (j, evs))"
proof -
  have unfold: "makedirs p (j, evs) =
      (if fs j h = None then
         (case makedirs h (j, evs) of
            Inl e \<Rightarrow> if e = FileExistsError then mkdir p (j, evs) else Inl e
          | Inr w' \<Rightarrow> mkdir p w')
       else mkdir p (j, evs))"
    using assms(1,2) by (subst makedirs.simps) simp
  have top: "makedirs h (j, evs) = mkdir h (j, evs)"
    using assms(3) by (subst makedirs.simps) simp
  show ?thesis
  proof (cases "fs j h = None")
    case True
    then have "mkdir h (j, evs) = Inr (j\<lparr>fs := (fs j)(h \<mapsto> Dir)\<rparr>, evs @ [Mkdir h])"
      by (simp add: mkdir_def parent_error_def assms(3))
    with True unfold top show ?thesis by simp
  next
    case False
    with unfold show ?thesis by auto
  qed
qed

lemma dirname_literals [simp]:
  "dirname ''rdf/rdf_txt_files'' = ''rdf''"
  "dirname ''rdf/rdf_png_files'' = ''rdf''"
  "dirname ''msd/msd_npy_files'' = ''msd''"
  "dirname ''rdf'' = []"
  "dirname ''msd'' = []"
  "dirname ''diffraction_plots'' = []"
  "dirname ''dp.npy'' = []"
  "dirname ''msd/msd.png'' = ''msd''"
  by (simp_all add: dirname_def)

lemma write_file_Inr':
  "write_file p c w = Inr w' \<longleftrightarrow>
     parent_error (fst w) p = None \<and> fs (fst w) p \<noteq> Some Dir \<and>
     w' = ((fst w)\<lparr>fs := (fs (fst w))(p \<mapsto> File c)\<rparr>, snd w @ [Write p c])"
  by (cases w) (simp add: write_file_Inr)

lemma open_gsd_fs_update:
  "f ''trajectory.gsd'' = fs j ''trajectory.gsd'' \<Longrightarrow> open_gsd (j\<lparr>fs := f\<rparr>) = open_gsd j"
  by (simp add: open_gsd_def)

lemmas path_defs = rdf_txt_path_def rdf_png_path_def msd_npy_path_def

lemma trajectory_not_output [simp]:
  "''trajectory.gsd'' \<noteq> rdf_txt_path t"
  "''trajectory.gsd'' \<noteq> rdf_png_path t"
  "''trajectory.gsd'' \<noteq> msd_npy_path t"
  by (simp_all add: path_defs)

lemma output_paths_distinct [simp]:
  "rdf_txt_path t \<noteq> rdf_png_path t'" "rdf_png_path t \<noteq> rdf_txt_path t'"
  "rdf_txt_path t \<noteq> msd_npy_path t'" "msd_npy_path t \<noteq> rdf_txt_path t'"
  "rdf_png_path t \<noteq> msd_npy_path t'" "msd_npy_path t \<noteq> rdf_png_path t'"
  "rdf_txt_path t \<noteq> ''msd/msd.png''" "''msd/msd.png'' \<noteq> rdf_txt_path t"
  "rdf_png_path t \<noteq> ''msd/msd.png''" "''msd/msd.png'' \<noteq> rdf_png_path t"
  "msd_npy_path t \<noteq> ''msd/msd.png''" "''msd/msd.png'' \<noteq> msd_npy_path t"
  by (simp_all add: path_defs)

lemma output_paths_inject [simp]:
  "rdf_txt_path t = rdf_txt_path t' \<longleftrightarrow> t = t'"
  "rdf_png_path t = rdf_png_path t' \<longleftrightarrow> t = t'"
  "msd_npy_path t = msd_npy_path t' \<longleftrightarrow> t = t'"
  by (simp_all add: path_defs)

lemma type_body_Inr:
  assumes "type_body l t ((j, evs), slopes, curves) = Inr ((j', evs'), slopes', curves')"
    and "open_gsd j = Inr traj"
  obtains bc rdf norm full short slope where
    "gsd_rdf l traj t t (1 / 100) 5 = Inr (bc, rdf, norm)"
    "length bc = length rdf"
    "msd_of_trajectory l traj (- 30) (- 1) t ''window'' = Inr full"
    "msd_of_trajectory l traj (- 25) (- 9) t ''window'' = Inr short"
    "linregress l (map real [0..<length short]) short = Inr slope"
    "fs j' = (fs j)
       (rdf_txt_path t \<mapsto> File (TextTable ''bin_centers, rdf'' '','' (zip bc (map (\<lambda>v. v * norm) rdf))),
        rdf_png_path t \<mapsto> File (Figure [(None, bc, map (\<lambda>v. v * norm) rdf)]),
        msd_npy_path t \<mapsto> File (NpyArray full),
        ''msd/msd.png'' \<mapsto> File (Figure curves'))"
    "evs' = evs @
       [Write (rdf_txt_path t) (TextTable ''bin_centers, rdf'' '','' (zip bc (map (\<lambda>v. v * norm) rdf))),
        Write (rdf_png_path t) (Figure [(None, bc, map (\<lambda>v. v * norm) rdf)]),
        Write (msd_npy_path t) (NpyArray full),
        Write ''msd/msd.png'' (Figure curves')]"
    "slopes' = slopes(t \<mapsto> slope)"
    "curves' = curves @ [(Some t, map real [0..<length full], full)]"
    "sp j' = sp j" "doc j' = doc j"
proof -
  from assms(1) obtain r where r: "gsd_rdf l traj t t (1 / 100) 5 = Inr r"
    by (auto simp: type_body_def assms(2) elim: bind_rE)
  obtain bc rdf norm where rr: "r = (bc, rdf, norm)"
    by (cases r) auto
  have og: "open_gsd (j\<lparr>fs := f\<rparr>) = Inr traj" if "f ''trajectory.gsd'' = fs j ''trajectory.gsd''" for f
    using that assms(2) by (simp add: open_gsd_fs_update)
  from assms(1) show ?thesis
    apply (clarsimp simp: type_body_def assms(2) r rr Let_def bind_r_eq_Inr write_file_Inr'
        transpose2_def msd_from_gsd_def og split: if_splits)
    apply (rule that [OF r [unfolded rr]])
    apply simp_all
    done
qed

lemma type_loop_frame:
  assumes "type_loop l ts ((j, evs), slopes, curves) = Inr ((j', evs'), slopes', curves')"
    and "open_gsd j = Inr traj"
  shows "open_gsd j' = Inr traj \<and> sp j' = sp j \<and> doc j' = doc j \<and>
       (\<exists>es. evs' = evs @ es \<and> length es = 4 * length ts \<and>
           (\<forall>e\<in>set es. is_write e \<and> type_path ts (event_path e))) \<and>
       (\<forall>p. \<not> type_path ts p \<longrightarrow> fs j' p = fs j p) \<and>
       dom slopes' = dom slopes \<union> set ts \<and>
       (\<forall>t'. t' \<notin> set ts \<longrightarrow> slopes' t' = slopes t') \<and>
       set curves \<subseteq> set curves' \<and>
       (ts \<noteq> [] \<longrightarrow> fs j' ''msd/msd.png'' = Some (File (Figure curves')))"
  using assms
proof (induction ts arbitrary: j evs slopes curves)
  case Nil
  then show ?case by simp
next
  case (Cons t ts)
  from Cons.prems(1) obtain st1 where b: "type_body l t ((j, evs), slopes, curves) = Inr st1"
    and rest: "type_loop l ts st1 = Inr ((j', evs'), slopes', curves')"
    by (auto elim: bind_rE)
  obtain j1 evs1 slopes1 curves1 where st1: "st1 = ((j1, evs1), slopes1, curves1)"
    by (cases st1) auto
  from b [unfolded st1] Cons.prems(2) obtain bc rdf norm full short slope where
    fs1: "fs j1 = (fs j)
       (rdf_txt_path t \<mapsto> File (TextTable ''bin_centers, rdf'' '','' (zip bc (map (\<lambda>v. v * norm) rdf))),
        rdf_png_path t \<mapsto> File (Figure [(None, bc, map (\<lambda>v. v * norm) rdf)]),
        msd_npy_path t \<mapsto> File (NpyArray full),
        ''msd/msd.png'' \<mapsto> File (Figure curves1))"
    and ev1: "evs1 = evs @
       [Write (rdf_txt_path t) (TextTable ''bin_centers, rdf'' '','' (zip bc (map (\<lambda>v. v * norm) rdf))),
        Write (rdf_png_path t) (Figure [(None, bc, map (\<lambda>v. v * norm) rdf)]),
        Write (msd_npy_path t) (NpyArray full),
        Write ''msd/msd.png'' (Figure curves1)]"
    and sl1: "slopes1 = slopes(t \<mapsto> slope)"
    and cv1: "curves1 = curves @ [(Some t, map real [0..<length full], full)]"
    and sp1: "sp j1 = sp j" and doc1: "doc j1 = doc j"
    by (rule type_body_Inr)
  from fs1 Cons.prems(2) have og1: "open_gsd j1 = Inr traj"
    by (simp add: open_gsd_def)
  from Cons.IH [OF rest [unfolded st1] og1]
  have ih1: "open_gsd j' = Inr traj" and ih2: "sp j' = sp j1" and ih3: "doc j' = doc j1"
    and ih4: "\<exists>es. evs' = evs1 @ es \<and> length es = 4 * length ts \<and>
           (\<forall>e\<in>set es. is_write e \<and> type_path ts (event_path e))"
    and ih5: "\<forall>p. \<not> type_path ts p \<longrightarrow> fs j' p = fs j1 p"
    and ih6: "dom slopes' = dom slopes1 \<union> set ts"
    and ih7: "\<forall>t'. t' \<notin> set ts \<longrightarrow> slopes' t' = slopes1 t'"
    and ih8: "set curves1 \<subseteq> set curves'"
    and ih9: "ts \<noteq> [] \<longrightarrow> fs j' ''msd/msd.png'' = Some (File (Figure curves'))"
    by blast+
  have "sp j' = sp j" using ih2 sp1 by simp
  moreover have "doc j' = doc j" using ih3 doc1 by simp
  moreover have "\<exists>es. evs' = evs @ es \<and> length es = 4 * length (t # ts) \<and>
         (\<forall>e\<in>set es. is_write e \<and> type_path (t # ts) (event_path e))"
  proof -
    from ih4 obtain es where es: "evs' = evs1 @ es" "length es = 4 * length ts"
      "\<forall>e\<in>set es. is_write e \<and> type_path ts (event_path e)" by blast
    let ?hd = "[Write (rdf_txt_path t) (TextTable ''bin_centers, rdf'' '','' (zip bc (map (\<lambda>v. v * norm) rdf))),
        Write (rdf_png_path t) (Figure [(None, bc, map (\<lambda>v. v * norm) rdf)]),
        Write (msd_npy_path t) (NpyArray full),
        Write ''msd/msd.png'' (Figure curves1)]"
    have "evs' = evs @ (?hd @ es)" using es(1) ev1 by simp
    moreover have "length (?hd @ es) = 4 * length (t # ts)" using es(2) by simp
    moreover have "\<forall>e\<in>set (?hd @ es). is_write e \<and> type_path (t # ts) (event_path e)"
      using es(3) by (auto simp: is_write_def type_path_def)
    ultimately show ?thesis by blast
  qed
  moreover have "\<forall>p. \<not> type_path (t # ts) p \<longrightarrow> fs j' p = fs j p"
  proof (intro allI impI)
    fix p assume np: "\<not> type_path (t # ts) p"
    then have "\<not> type_path ts p" by (auto simp: type_path_def)
    with ih5 have "fs j' p = fs j1 p" by simp
    also from np have "\<dots> = fs j p" by (auto simp: fs1 type_path_def)
    finally show "fs j' p = fs j p" .
  qed
  moreover have "dom slopes' = dom slopes \<union> set (t # ts)"
    using ih6 sl1 by auto
  moreover have "\<forall>t'. t' \<notin> set (t # ts) \<longrightarrow> slopes' t' = slopes t'"
    using ih7 sl1 by auto
  moreover have "set curves \<subseteq> set curves'"
    using ih8 cv1 by auto
  moreover have "t # ts \<noteq> [] \<longrightarrow> fs j' ''msd/msd.png'' = Some (File (Figure curves'))"
  proof (cases "ts = []")
    case True
    with rest st1 fs1 show ?thesis by simp
  next
    case False
    with ih9 show ?thesis by simp
  qed
  ultimately show ?case using ih1 by blast
qed

lemma type_path_own:
  "type_path ts (rdf_txt_path t) \<longleftrightarrow> t \<in> set ts"
  "type_path ts (rdf_png_path t) \<longleftrightarrow> t \<in> set ts"
  "type_path ts (msd_npy_path t) \<longleftrightarrow> t \<in> set ts"
  by (auto simp: type_path_def)

lemma type_loop_types:
  assumes "type_loop l ts ((j, evs), slopes, curves) = Inr ((j', evs'), slopes', curves')"
    and "open_gsd j = Inr traj"
  shows "\<forall>t\<in>set ts. rdf_done l traj j' t \<and> msd_done l traj j' slopes' curves' t"
  using assms
proof (induction ts arbitrary: j evs slopes curves)
  case Nil
  then show ?case by simp
next
  case (Cons t ts)
  from Cons.prems(1) obtain st1 where b: "type_body l t ((j, evs), slopes, curves) = Inr st1"
    and rest: "type_loop l ts st1 = Inr ((j', evs'), slopes', curves')"
    by (auto elim: bind_rE)
  obtain j1 evs1 slopes1 curves1 where st1: "st1 = ((j1, evs1), slopes1, curves1)"
    by (cases st1) auto
  from b [unfolded st1] Cons.prems(2) obtain bc rdf norm full short slope where
    lib1: "gsd_rdf l traj t t (1 / 100) 5 = Inr (bc, rdf, norm)" "length bc = length rdf"
      "msd_of_trajectory l traj (- 30) (- 1) t ''window'' = Inr full"
      "msd_of_trajectory l traj (- 25) (- 9) t ''window'' = Inr short"
      "linregress l (map real [0..<length short]) short = Inr slope"
    and fs1: "fs j1 = (fs j)
       (rdf_txt_path t \<mapsto> File (TextTable ''bin_centers, rdf'' '','' (zip bc (map (\<lambda>v. v * norm) rdf))),
        rdf_png_path t \<mapsto> File (Figure [(None, bc, map (\<lambda>v. v * norm) rdf)]),
        msd_npy_path t \<mapsto> File (NpyArray full),
        ''msd/msd.png'' \<mapsto> File (Figure curves1))"
    and sl1: "slopes1 = slopes(t \<mapsto> slope)"
    and cv1: "curves1 = curves @ [(Some t, map real [0..<length full], full)]"
    by (rule type_body_Inr)
  from fs1 Cons.prems(2) have og1: "open_gsd j1 = Inr traj"
    by (simp add: open_gsd_def)
  note ih = Cons.IH [OF rest [unfolded st1] og1]
  from type_loop_frame [OF rest [unfolded st1] og1]
  have keep: "\<forall>p. \<not> type_path ts p \<longrightarrow> fs j' p = fs j1 p"
    and keep_sl: "\<forall>t'. t' \<notin> set ts \<longrightarrow> slopes' t' = slopes1 t'"
    and keep_cv: "set curves1 \<subseteq> set curves'"
    by blast+
  have "rdf_done l traj j' t \<and> msd_done l traj j' slopes' curves' t"
  proof (cases "t \<in> set ts")
    case True
    with ih show ?thesis by blast
  next
    case False
    then have "fs j' (rdf_txt_path t) = fs j1 (rdf_txt_path t)"
      "fs j' (rdf_png_path t) = fs j1 (rdf_png_path t)"
      "fs j' (msd_npy_path t) = fs j1 (msd_npy_path t)"
      using keep by (simp_all add: type_path_own)
    moreover from False keep_sl have "slopes' t = slopes1 t" by simp
    moreover from keep_cv cv1 have "(Some t, map real [0..<length full], full) \<in> set curves'"
      by auto
    ultimately show ?thesis
      using lib1 by (auto simp: rdf_done_def msd_done_def fs1 sl1)
  qed
  with ih show ?case by simp
qed

lemma makedirs_leaf:
  assumes "makedirs p (j, evs) = Inr (j', evs')"
    and "dirname p = h" and "h \<noteq> []" and "dirname h = []" and "p \<noteq> h"
  shows "fs j p = None \<and> fs j' = (fs j)(h \<mapsto> Dir, p \<mapsto> Dir) \<and> sp j' = sp j \<and> doc j' = doc j \<and>
         (\<exists>ds. evs' = evs @ ds @ [Mkdir p] \<and> set ds \<subseteq> {Mkdir h})"
proof (cases "fs j h = None")
  case True
  with assms have "mkdir p (j\<lparr>fs := (fs j)(h \<mapsto> Dir)\<rparr>, evs @ [Mkdir h]) = Inr (j', evs')"
    by (simp add: makedirs_two [OF assms(2,3,4)])
  then show ?thesis
    using assms(5) by (auto simp: mkdir_Inr)
next
  case False
  with assms have m: "mkdir p (j, evs) = Inr (j', evs')"
    by (auto simp: makedirs_two [OF assms(2,3,4)])
  then have "fs j h = Some Dir"
    using assms(2,3) by (auto simp: mkdir_Inr parent_error_def split: option.splits node.splits)
  then have "(fs j)(h \<mapsto> Dir) = fs j" by (rule fun_upd_idem)
  with m show ?thesis
    by (auto simp: mkdir_Inr)
qed

lemma rdf_msd_stage_Inr:
  assumes "rdf_msd_stage l (j, evs) = Inr (j1, evs1)"
  obtains traj snap slopes curves ds es where
    "open_gsd j = Inr traj" "first_frame traj = Inr snap" "open_gsd j1 = Inr traj"
    "evs1 = evs @ ds @ es"
    "\<forall>e\<in>set ds. \<not> is_write e \<and> event_path e \<in> out_dirs"
    "Mkdir ''rdf/rdf_txt_files'' \<in> set ds" "Mkdir ''rdf/rdf_png_files'' \<in> set ds"
    "Mkdir ''msd/msd_npy_files'' \<in> set ds"
    "length es = 4 * length (types snap)"
    "\<forall>e\<in>set es. is_write e \<and> type_path (types snap) (event_path e)"
    "\<forall>p. p \<notin> out_dirs \<longrightarrow> \<not> type_path (types snap) p \<longrightarrow> fs j1 p = fs j p"
    "sp j1 = sp j" "doc j1 = (doc j)\<lparr>msd_slopes := Some slopes\<rparr>"
    "dom slopes = set (types snap)"
    "\<forall>t\<in>set (types snap). rdf_done l traj j1 t \<and> msd_done l traj j1 slopes curves t"
    "types snap \<noteq> [] \<longrightarrow> fs j1 ''msd/msd.png'' = Some (File (Figure curves))"
proof -
  from assms obtain traj where og: "open_gsd j = Inr traj"
    by (auto simp: rdf_msd_stage_def elim: bind_rE)
  from assms og obtain snap where ff: "first_frame traj = Inr snap"
    by (auto simp: rdf_msd_stage_def elim: bind_rE)
  from assms og ff obtain w1 w2 w3 st where
    m1: "makedirs ''rdf/rdf_txt_files'' (j, evs) = Inr w1"
    and m2: "makedirs ''rdf/rdf_png_files'' w1 = Inr w2"
    and m3: "makedirs ''msd/msd_npy_files'' w2 = Inr w3"
    and lp: "type_loop l (types snap) (w3, Map.empty, []) = Inr st"
    and fin: "(case st of (w, slopes, curves) \<Rightarrow> Inr (set_msd_slopes slopes w)) = Inr (j1, evs1)"
    by (auto simp: rdf_msd_stage_def Let_def bind_r_eq_Inr)
  obtain ja ea where w1: "w1 = (ja, ea)" by (cases w1) auto
  obtain jb eb where w2: "w2 = (jb, eb)" by (cases w2) auto
  obtain jc ec where w3: "w3 = (jc, ec)" by (cases w3) auto
  obtain jd ed slopes curves where st: "st = ((jd, ed), slopes, curves)" by (cases st) auto
  from makedirs_leaf [OF m1 [unfolded w1], of "''rdf''"]
  obtain d1 where a: "fs ja = (fs j)(''rdf'' \<mapsto> Dir, ''rdf/rdf_txt_files'' \<mapsto> Dir)"
    "sp ja = sp j" "doc ja = doc j" "ea = evs @ d1 @ [Mkdir ''rdf/rdf_txt_files'']"
    "set d1 \<subseteq> {Mkdir ''rdf''}"
    by auto
  from makedirs_leaf [OF m2 [unfolded w1 w2], of "''rdf''"]
  obtain d2 where b: "fs jb = (fs ja)(''rdf'' \<mapsto> Dir, ''rdf/rdf_png_files'' \<mapsto> Dir)"
    "sp jb = sp ja" "doc jb = doc ja" "eb = ea @ d2 @ [Mkdir ''rdf/rdf_png_files'']"
    "set d2 \<subseteq> {Mkdir ''rdf''}"
    by auto
  from makedirs_leaf [OF m3 [unfolded w2 w3], of "''msd''"]
  obtain d3 where c: "fs jc = (fs jb)(''msd'' \<mapsto> Dir, ''msd/msd_npy_files'' \<mapsto> Dir)"
    "sp jc = sp jb" "doc jc = doc jb" "ec = eb @ d3 @ [Mkdir ''msd/msd_npy_files'']"
    "set d3 \<subseteq> {Mkdir ''msd''}"
    by auto
  define ds where "ds = d1 @ [Mkdir ''rdf/rdf_txt_files''] @ d2 @ [Mkdir ''rdf/rdf_png_files'']
     @ d3 @ [Mkdir ''msd/msd_npy_files'']"
  have ec: "ec = evs @ ds"
    by (simp add: ds_def a b c)
  have ogc: "open_gsd jc = Inr traj"
    using og by (simp add: open_gsd_def a b c)
  from type_loop_frame [OF lp [unfolded w3 st] ogc]
  obtain es where fr: "open_gsd jd = Inr traj" "sp jd = sp jc" "doc jd = doc jc"
    "ed = ec @ es" "length es = 4 * length (types snap)"
    "\<forall>e\<in>set es. is_write e \<and> type_path (types snap) (event_path e)"
    "\<forall>p. \<not> type_path (types snap) p \<longrightarrow> fs jd p = fs jc p"
    "dom slopes = dom (Map.empty :: string \<rightharpoonup> real) \<union> set (types snap)"
    "types snap \<noteq> [] \<longrightarrow> fs jd ''msd/msd.png'' = Some (File (Figure curves))"
    by blast
  note ty = type_loop_types [OF lp [unfolded w3 st] ogc]
  from fin st have j1: "j1 = jd\<lparr>doc := (doc jd)\<lparr>msd_slopes := Some slopes\<rparr>\<rparr>" and e1: "evs1 = ed"
    by (simp_all add: set_msd_slopes_def)
  show ?thesis
  proof (rule that [OF og ff, of ds es slopes curves])
    show "open_gsd j1 = Inr traj" using fr(1) by (simp add: j1 open_gsd_def)
    show "evs1 = evs @ ds @ es" by (simp add: e1 fr(4) ec)
    show "\<forall>e\<in>set ds. \<not> is_write e \<and> event_path e \<in> out_dirs"
      using a(5) b(5) c(5) by (auto simp: ds_def is_write_def out_dirs_def)
    show "Mkdir ''rdf/rdf_txt_files'' \<in> set ds" "Mkdir ''rdf/rdf_png_files'' \<in> set ds"
      "Mkdir ''msd/msd_npy_files'' \<in> set ds"
      by (simp_all add: ds_def)
    show "length es = 4 * length (types snap)" by (rule fr(5))
    show "\<forall>e\<in>set es. is_write e \<and> type_path (types snap) (event_path e)" by (rule fr(6))
    show "\<forall>p. p \<notin> out_dirs \<longrightarrow> \<not> type_path (types snap) p \<longrightarrow> fs j1 p = fs j p"
      using fr(7) by (auto simp: j1 a b c out_dirs_def)
    show "sp j1 = sp j" by (simp add: j1 fr(2) a b c)
    show "doc j1 = (doc j)\<lparr>msd_slopes := Some slopes\<rparr>" by (simp add: j1 fr(3) a b c)
    show "dom slopes = set (types snap)" using fr(8) by simp
    show "\<forall>t\<in>set (types snap). rdf_done l traj j1 t \<and> msd_done l traj j1 slopes curves t"
      using ty by (simp add: j1 rdf_done_def msd_done_def)
    show "types snap \<noteq> [] \<longrightarrow> fs j1 ''msd/msd.png'' = Some (File (Figure curves))"
      using fr(9) by (simp add: j1)
  qed
qed

lemma diffraction_loop_Inr:
  assumes "diffraction_loop l bx points qs ((j, evs), q_list) = Inr ((j', evs'), q_list')"
  shows "q_list' = q_list @ qs \<and> sp j' = sp j \<and> doc j' = doc j \<and>
         (\<exists>patterns. map (diffraction l 1024 1024 bx points) qs = map Inr patterns \<and>
            evs' = evs @ map (diffraction_event l) (zip qs patterns)) \<and>
         (\<forall>p. (\<forall>q\<in>set qs. p \<noteq> diffraction_path l q) \<longrightarrow> fs j' p = fs j p)"
  using assms
proof (induction qs arbitrary: j evs q_list)
  case Nil
  then show ?case by simp
next
  case (Cons q qs)
  from Cons.prems obtain pattern w1 where
    d: "diffraction l 1024 1024 bx points q = Inr pattern"
    and wr: "write_file (diffraction_path l q) (DiffractionFigure pattern) (j, evs) = Inr w1"
    and rest: "diffraction_loop l bx points qs (w1, q_list @ [q]) = Inr ((j', evs'), q_list')"
    by (auto simp: bind_r_eq_Inr)
  from wr have w1: "w1 = (j\<lparr>fs := (fs j)(diffraction_path l q \<mapsto> File (DiffractionFigure pattern))\<rparr>,
      evs @ [Write (diffraction_path l q) (DiffractionFigure pattern)])"
    by (simp add: write_file_Inr)
  from Cons.IH [OF rest [unfolded w1]]
  obtain patterns where ih: "q_list' = (q_list @ [q]) @ qs" "sp j' = sp j" "doc j' = doc j"
    "map (diffraction l 1024 1024 bx points) qs = map Inr patterns"
    "evs' = (evs @ [Write (diffraction_path l q) (DiffractionFigure pattern)]) @
       map (diffraction_event l) (zip qs patterns)"
    "\<forall>p. (\<forall>q\<in>set qs. p \<noteq> diffraction_path l q) \<longrightarrow>
       fs j' p = ((fs j)(diffraction_path l q \<mapsto> File (DiffractionFigure pattern))) p"
    by auto
  have "map (diffraction l 1024 1024 bx points) (q # qs) = map Inr (pattern # patterns)"
    using d ih(4) by simp
  moreover have "evs' = evs @ map (diffraction_event l) (zip (q # qs) (pattern # patterns))"
    using ih(5) by (simp add: diffraction_event_def)
  ultimately have ex: "\<exists>ps. map (diffraction l 1024 1024 bx points) (q # qs) = map Inr ps \<and>
      evs' = evs @ map (diffraction_event l) (zip (q # qs) ps)"
    by blast
  have fr: "\<forall>p. (\<forall>q'\<in>set (q # qs). p \<noteq> diffraction_path l q') \<longrightarrow> fs j' p = fs j p"
    using ih(6) by auto
  have "q_list' = q_list @ q # qs" using ih(1) by simp
  with ex fr ih(2,3) show ?case by blast
qed

lemma diffraction_path_not [simp]:
  "diffraction_path l q \<noteq> ''dp.npy''" "''dp.npy'' \<noteq> diffraction_path l q"
  "diffraction_path l q \<noteq> ''diffraction_plots''" "''diffraction_plots'' \<noteq> diffraction_path l q"
  "diffraction_path l q \<noteq> ''trajectory.gsd''" "''trajectory.gsd'' \<noteq> diffraction_path l q"
  by (simp_all add: diffraction_path_def)

lemma diffraction_stage_Inr:
  assumes "diffraction_stage l (j, evs) = Inr (j', evs')"
  obtains traj patterns where
    "open_gsd j = Inr traj" "traj \<noteq> []"
    "fs j ''diffraction_plots'' = None"
    "map (diffraction l 1024 1024 (box (last traj)) (position (last traj))) (get_quaternions l)
       = map Inr patterns"
    "evs' = evs @ [Mkdir ''diffraction_plots''] @
       map (diffraction_event l) (zip (get_quaternions l) patterns) @
       [Write ''dp.npy'' (NpyQuaternions (get_quaternions l))]"
    "sp j' = sp j" "doc j' = doc j"
    "\<forall>p. p \<noteq> ''diffraction_plots'' \<longrightarrow> p \<noteq> ''dp.npy'' \<longrightarrow>
         (\<forall>q\<in>set (get_quaternions l). p \<noteq> diffraction_path l q) \<longrightarrow> fs j' p = fs j p"
    "fs j' ''dp.npy'' = Some (File (NpyQuaternions (get_quaternions l)))"
proof -
  from assms obtain traj where og: "open_gsd j = Inr traj"
    by (auto simp: diffraction_stage_def elim: bind_rE)
  from assms og have ne: "traj \<noteq> []"
    by (auto simp: diffraction_stage_def last_frame_def split: if_splits)
  from assms og ne obtain w1 st where
    mk: "mkdir ''diffraction_plots'' (j, evs) = Inr w1"
    and lp: "diffraction_loop l (box (last traj)) (position (last traj)) (get_quaternions l) (w1, [])
               = Inr st"
    and fin: "(case st of (w, q_list) \<Rightarrow> write_file ''dp.npy'' (NpyQuaternions q_list) w) = Inr (j', evs')"
    by (auto simp: diffraction_stage_def last_frame_def Let_def bind_r_eq_Inr)
  from mk have none: "fs j ''diffraction_plots'' = None"
    and w1: "w1 = (j\<lparr>fs := (fs j)(''diffraction_plots'' \<mapsto> Dir)\<rparr>, evs @ [Mkdir ''diffraction_plots''])"
    by (simp_all add: mkdir_Inr)
  obtain j2 e2 q_list where st: "st = ((j2, e2), q_list)" by (cases st) auto
  from diffraction_loop_Inr [OF lp [unfolded w1 st]]
  obtain patterns where lo: "q_list = get_quaternions l" "sp j2 = sp j" "doc j2 = doc j"
    "map (diffraction l 1024 1024 (box (last traj)) (position (last traj))) (get_quaternions l)
       = map Inr patterns"
    "e2 = (evs @ [Mkdir ''diffraction_plots'']) @ map (diffraction_event l) (zip (get_quaternions l) patterns)"
    "\<forall>p. (\<forall>q\<in>set (get_quaternions l). p \<noteq> diffraction_path l q) \<longrightarrow>
        fs j2 p = ((fs j)(''diffraction_plots'' \<mapsto> Dir)) p"
    by auto
  from fin st have wr: "write_file ''dp.npy'' (NpyQuaternions q_list) (j2, e2) = Inr (j', evs')"
    by simp
  then have j': "j' = j2\<lparr>fs := (fs j2)(''dp.npy'' \<mapsto> File (NpyQuaternions q_list))\<rparr>"
    and e': "evs' = e2 @ [Write ''dp.npy'' (NpyQuaternions q_list)]"
    by (simp_all add: write_file_Inr)
  show ?thesis
  proof (rule that [OF og ne none lo(4)])
    show "evs' = evs @ [Mkdir ''diffraction_plots''] @
       map (diffraction_event l) (zip (get_quaternions l) patterns) @
       [Write ''dp.npy'' (NpyQuaternions (get_quaternions l))]"
      by (simp add: e' lo(1,5))
    show "sp j' = sp j" by (simp add: j' lo(2))
    show "doc j' = doc j" by (simp add: j' lo(3))
    show "\<forall>p. p \<noteq> ''diffraction_plots'' \<longrightarrow> p \<noteq> ''dp.npy'' \<longrightarrow>
         (\<forall>q\<in>set (get_quaternions l). p \<noteq> diffraction_path l q) \<longrightarrow> fs j' p = fs j p"
      using lo(6) by (simp add: j')
    show "fs j' ''dp.npy'' = Some (File (NpyQuaternions (get_quaternions l)))"
      by (simp add: j' lo(1))
  qed
qed

lemma in_outputs_literals [simp]:
  "in_outputs (rdf_txt_path t)" "in_outputs (rdf_png_path t)" "in_outputs (msd_npy_path t)"
  "in_outputs ''msd/msd.png''" "in_outputs (diffraction_path l q)"
  "in_outputs ''diffraction_plots''" "in_outputs ''dp.npy''"
  "in_outputs ''rdf''" "in_outputs ''msd''"
  "in_outputs ''rdf/rdf_txt_files''" "in_outputs ''rdf/rdf_png_files''"
  "in_outputs ''msd/msd_npy_files''"
  "\<not> in_outputs ''rdf.txt''" "\<not> in_outputs ''trajectory.gsd''"
  by (simp_all add: in_outputs_def path_defs diffraction_path_def)

lemma type_path_cases:
  assumes "type_path ts p"
  obtains "p = ''msd/msd.png''" | t where "p = rdf_txt_path t" | t where "p = rdf_png_path t"
    | t where "p = msd_npy_path t"
  using assms unfolding type_path_def by blast

lemma out_dirs_cases:
  assumes "p \<in> out_dirs"
  obtains "p = ''rdf''" | "p = ''rdf/rdf_txt_files''" | "p = ''rdf/rdf_png_files''"
    | "p = ''msd''" | "p = ''msd/msd_npy_files''"
  using assms unfolding out_dirs_def by blast

lemma in_outputs_type_path: "type_path ts p \<Longrightarrow> in_outputs p"
  by (erule type_path_cases) simp_all

lemma in_outputs_out_dirs: "p \<in> out_dirs \<Longrightarrow> in_outputs p"
  by (erule out_dirs_cases) simp_all

lemma diffraction_side_literals [simp]:
  "\<not> diffraction_side (rdf_txt_path t)" "\<not> diffraction_side (rdf_png_path t)"
  "\<not> diffraction_side (msd_npy_path t)" "\<not> diffraction_side ''msd/msd.png''"
  "\<not> diffraction_side ''rdf''" "\<not> diffraction_side ''msd''"
  "\<not> diffraction_side ''rdf/rdf_txt_files''" "\<not> diffraction_side ''rdf/rdf_png_files''"
  "\<not> diffraction_side ''msd/msd_npy_files''"
  "diffraction_side (diffraction_path l q)" "diffraction_side ''diffraction_plots''"
  "diffraction_side ''dp.npy''"
  by (simp_all add: diffraction_side_def path_defs diffraction_path_def)

lemma type_path_not_diffraction: "type_path ts p \<Longrightarrow> \<not> diffraction_side p"
  by (erule type_path_cases) simp_all

lemma out_dirs_not_diffraction: "p \<in> out_dirs \<Longrightarrow> \<not> diffraction_side p"
  by (erule out_dirs_cases) simp_all

lemma rdf_msd_stage_fresh:
  assumes "rdf_msd_stage l (j, evs) = Inr w"
  shows "fs j ''rdf/rdf_txt_files'' = None \<and> fs j ''rdf/rdf_png_files'' = None \<and>
         fs j ''msd/msd_npy_files'' = None"
proof -
  from assms obtain w1 w2 w3 where
    m1: "makedirs ''rdf/rdf_txt_files'' (j, evs) = Inr w1"
    and m2: "makedirs ''rdf/rdf_png_files'' w1 = Inr w2"
    and m3: "makedirs ''msd/msd_npy_files'' w2 = Inr w3"
    by (auto simp: rdf_msd_stage_def Let_def bind_r_eq_Inr)
  obtain ja ea where w1: "w1 = (ja, ea)" by (cases w1) auto
  obtain jb eb where w2: "w2 = (jb, eb)" by (cases w2) auto
  obtain jc ec where w3: "w3 = (jc, ec)" by (cases w3) auto
  from makedirs_leaf [OF m1 [unfolded w1], of "''rdf''"]
  have a: "fs j ''rdf/rdf_txt_files'' = None"
    "fs ja = (fs j)(''rdf'' \<mapsto> Dir, ''rdf/rdf_txt_files'' \<mapsto> Dir)"
    by auto
  from makedirs_leaf [OF m2 [unfolded w1 w2], of "''rdf''"]
  have b: "fs ja ''rdf/rdf_png_files'' = None"
    "fs jb = (fs ja)(''rdf'' \<mapsto> Dir, ''rdf/rdf_png_files'' \<mapsto> Dir)"
    by auto
  from makedirs_leaf [OF m3 [unfolded w2 w3], of "''msd''"]
  have c: "fs jb ''msd/msd_npy_files'' = None"
    by auto
  from a b c show ?thesis by (simp split: if_splits)
qed

lemma post_proc_Inr:
  assumes "post_proc l j = Inr (j', evs)"
  obtains traj snap slopes curves ds es patterns where
    "open_gsd j = Inr traj" "first_frame traj = Inr snap"
    "evs = ds @ es @ [Mkdir ''diffraction_plots''] @
       map (diffraction_event l) (zip (get_quaternions l) patterns) @
       [Write ''dp.npy'' (NpyQuaternions (get_quaternions l))]"
    "\<forall>e\<in>set ds. \<not> is_write e \<and> event_path e \<in> out_dirs"
    "Mkdir ''rdf/rdf_txt_files'' \<in> set ds" "Mkdir ''rdf/rdf_png_files'' \<in> set ds"
    "Mkdir ''msd/msd_npy_files'' \<in> set ds"
    "length es = 4 * length (types snap)"
    "\<forall>e\<in>set es. is_write e \<and> type_path (types snap) (event_path e)"
    "map (diffraction l 1024 1024 (box (last traj)) (position (last traj))) (get_quaternions l)
       = map Inr patterns"
    "\<forall>p. \<not> in_outputs p \<longrightarrow> fs j' p = fs j p"
    "sp j' = sp j" "doc j' = (doc j)\<lparr>msd_slopes := Some slopes\<rparr>"
    "dom slopes = set (types snap)"
    "\<forall>t\<in>set (types snap). rdf_done l traj j' t \<and> msd_done l traj j' slopes curves t"
    "types snap \<noteq> [] \<longrightarrow> fs j' ''msd/msd.png'' = Some (File (Figure curves))"
    "fs j' ''dp.npy'' = Some (File (NpyQuaternions (get_quaternions l)))"
    "fs j ''rdf/rdf_txt_files'' = None \<and> fs j ''rdf/rdf_png_files'' = None \<and>
     fs j ''msd/msd_npy_files'' = None \<and> fs j ''diffraction_plots'' = None"
proof -
  from assms obtain w1 where s1: "rdf_msd_stage l (j, []) = Inr w1"
    and s2: "diffraction_stage l w1 = Inr (j', evs)"
    by (auto simp: post_proc_def elim: bind_rE)
  obtain j1 e1 where w1: "w1 = (j1, e1)" by (cases w1) auto
  from s1 [unfolded w1] obtain traj snap slopes curves ds es where a:
    "open_gsd j = Inr traj" "first_frame traj = Inr snap" "open_gsd j1 = Inr traj"
    "e1 = [] @ ds @ es"
    "\<forall>e\<in>set ds. \<not> is_write e \<and> event_path e \<in> out_dirs"
    "Mkdir ''rdf/rdf_txt_files'' \<in> set ds" "Mkdir ''rdf/rdf_png_files'' \<in> set ds"
    "Mkdir ''msd/msd_npy_files'' \<in> set ds"
    "length es = 4 * length (types snap)"
    "\<forall>e\<in>set es. is_write e \<and> type_path (types snap) (event_path e)"
    "\<forall>p. p \<notin> out_dirs \<longrightarrow> \<not> type_path (types snap) p \<longrightarrow> fs j1 p = fs j p"
    "sp j1 = sp j" "doc j1 = (doc j)\<lparr>msd_slopes := Some slopes\<rparr>"
    "dom slopes = set (types snap)"
    "\<forall>t\<in>set (types snap). rdf_done l traj j1 t \<and> msd_done l traj j1 slopes curves t"
    "types snap \<noteq> [] \<longrightarrow> fs j1 ''msd/msd.png'' = Some (File (Figure curves))"
    by (rule rdf_msd_stage_Inr)
  from s2 [unfolded w1] obtain traj' patterns where b:
    "open_gsd j1 = Inr traj'" "traj' \<noteq> []" "fs j1 ''diffraction_plots'' = None"
    "map (diffraction l 1024 1024 (box (last traj')) (position (last traj'))) (get_quaternions l)
       = map Inr patterns"
    "evs = e1 @ [Mkdir ''diffraction_plots''] @
       map (diffraction_event l) (zip (get_quaternions l) patterns) @
       [Write ''dp.npy'' (NpyQuaternions (get_quaternions l))]"
    "sp j' = sp j1" "doc j' = doc j1"
    "\<forall>p. p \<noteq> ''diffraction_plots'' \<longrightarrow> p \<noteq> ''dp.npy'' \<longrightarrow>
         (\<forall>q\<in>set (get_quaternions l). p \<noteq> diffraction_path l q) \<longrightarrow> fs j' p = fs j1 p"
    "fs j' ''dp.npy'' = Some (File (NpyQuaternions (get_quaternions l)))"
    by (rule diffraction_stage_Inr)
  from a(3) b(1) have tr: "traj' = traj" by simp
  have side: "fs j' p = fs j1 p" if "\<not> diffraction_side p" for p
  proof -
    from that have "p \<noteq> ''diffraction_plots''" "p \<noteq> ''dp.npy''"
      "\<forall>q\<in>set (get_quaternions l). p \<noteq> diffraction_path l q"
      by auto
    with b(8) show ?thesis by simp
  qed
  have keep: "fs j' p = fs j1 p" if "type_path (types snap) p" for p
    using that by (intro side type_path_not_diffraction)
  show ?thesis
  proof (rule that [OF a(1,2) _ a(5,6,7,8,9,10) b(4) [unfolded tr], of slopes curves])
    show "evs = ds @ es @ [Mkdir ''diffraction_plots''] @
       map (diffraction_event l) (zip (get_quaternions l) patterns) @
       [Write ''dp.npy'' (NpyQuaternions (get_quaternions l))]"
      using b(5) a(4) by simp
    show "\<forall>p. \<not> in_outputs p \<longrightarrow> fs j' p = fs j p"
    proof (intro allI impI)
      fix p assume n: "\<not> in_outputs p"
      then have "p \<notin> out_dirs" "\<not> type_path (types snap) p"
        using in_outputs_out_dirs in_outputs_type_path by blast+
      moreover from n have "\<not> diffraction_side p"
        by (auto simp: in_outputs_def diffraction_side_def)
      ultimately show "fs j' p = fs j p" using a(11) side by simp
    qed
    show "sp j' = sp j" using a(12) b(6) by simp
    show "doc j' = (doc j)\<lparr>msd_slopes := Some slopes\<rparr>" using a(13) b(7) by simp
    show "dom slopes = set (types snap)" by (rule a(14))
    show "\<forall>t\<in>set (types snap). rdf_done l traj j' t \<and> msd_done l traj j' slopes curves t"
    proof
      fix t assume t: "t \<in> set (types snap)"
      then have "type_path (types snap) (rdf_txt_path t)" "type_path (types snap) (rdf_png_path t)"
        "type_path (types snap) (msd_npy_path t)"
        by (simp_all add: type_path_own)
      then have "fs j' (rdf_txt_path t) = fs j1 (rdf_txt_path t)"
        "fs j' (rdf_png_path t) = fs j1 (rdf_png_path t)"
        "fs j' (msd_npy_path t) = fs j1 (msd_npy_path t)"
        by (simp_all add: keep)
      with a(15) t show "rdf_done l traj j' t \<and> msd_done l traj j' slopes curves t"
        by (simp add: rdf_done_def msd_done_def)
    qed
    show "types snap \<noteq> [] \<longrightarrow> fs j' ''msd/msd.png'' = Some (File (Figure curves))"
      using a(16) keep [of "''msd/msd.png''"] by (simp add: type_path_def)
    show "fs j' ''dp.npy'' = Some (File (NpyQuaternions (get_quaternions l)))" by (rule b(9))
    have "''diffraction_plots'' \<notin> out_dirs"
      using out_dirs_not_diffraction [of "''diffraction_plots''"] by auto
    moreover have "\<not> type_path (types snap) ''diffraction_plots''"
      using type_path_not_diffraction [of "types snap" "''diffraction_plots''"] by auto
    ultimately have "fs j ''diffraction_plots'' = None" using a(11) b(3) by simp
    with rdf_msd_stage_fresh [OF s1]
    show "fs j ''rdf/rdf_txt_files'' = None \<and> fs j ''rdf/rdf_png_files'' = None \<and>
     fs j ''msd/msd_npy_files'' = None \<and> fs j ''diffraction_plots'' = None"
      by simp
  qed
qed

lemma post_proc_run_facts:
  assumes "post_proc l j = Inr (j', evs)"
  shows "\<exists>traj snap slopes curves ds es patterns.
           run_facts l j j' evs traj snap slopes curves ds es patterns"
proof (rule post_proc_Inr [OF assms], goal_cases)
  case (1 traj snap slopes curves ds es patterns)
  then have "run_facts l j j' evs traj snap slopes curves ds es patterns"
    unfolding run_facts_def by (intro conjI) (assumption | simp)+
  then show ?case by blast
qed

lemma example_succeeds: "succeeds (post_proc example_lib example_job)"
  by code_simp

lemma example_run: "\<exists>j' evs. post_proc example_lib example_job = Inr (j', evs)"
  using example_succeeds by (cases "post_proc example_lib example_job") (auto simp: succeeds_def)


lemma example_open: "open_gsd example_job = Inr example_traj"
  by (simp add: open_gsd_def example_job_def)

lemma example_first: "first_frame example_traj = Inr (example_frame 0)"
  by (simp add: first_frame_def example_traj_def)

section \<open>Properties of the analysis: the artifacts\<close>

text \<open>
  Claim C5, as amended. After a run of \<^verbatim>\<open>post_proc\<close> that returned, for every particle
  type \<open>t\<close> of the first frame of the trajectory, the distribution of \<open>t\<close> with itself
  was computed over the window from 0.01 to 5, and the workspace holds the table of its
  bin centers and normalised values, with header \<^verbatim>\<open>bin_centers, rdf\<close> and the comma as
  delimiter, at \<^verbatim>\<open>rdf/rdf_txt_files/<t>_rdf.txt\<close>, and the figure of the curve at
  \<^verbatim>\<open>rdf/rdf_png_files/<t>_rdf.png\<close>.
\<close>

theorem post_proc_rdf_artifacts:
  assumes "post_proc l j = Inr (j', evs)"
  shows "\<exists>traj snap.
           open_gsd j = Inr traj \<and> first_frame traj = Inr snap \<and>
           (\<forall>t\<in>set (types snap). \<exists>bin_centers rdf norm.
              gsd_rdf l traj t t (1 / 100) 5 = Inr (bin_centers, rdf, norm) \<and>
              fs j' (''rdf/rdf_txt_files/'' @ t @ ''_rdf.txt'') =
                Some (File (TextTable ''bin_centers, rdf'' '',''
                        (zip bin_centers (map (\<lambda>v. v * norm) rdf)))) \<and>
              fs j' (''rdf/rdf_png_files/'' @ t @ ''_rdf.png'') =
                Some (File (Figure [(None, bin_centers, map (\<lambda>v. v * norm) rdf)])))"
proof -
  from post_proc_run_facts [OF assms] obtain traj snap slopes curves ds es patterns
    where "run_facts l j j' evs traj snap slopes curves ds es patterns" by blast
  then have "open_gsd j = Inr traj" "first_frame traj = Inr snap"
    "\<forall>t\<in>set (types snap). rdf_done l traj j' t"
    by (simp_all add: run_facts_def)
  then show ?thesis
    unfolding rdf_done_def path_defs by blast
qed

theorem post_proc_rdf_artifacts_witness:
  "\<exists>j' evs. post_proc example_lib example_job = Inr (j', evs) \<and>
     fs j' ''rdf/rdf_txt_files/A_rdf.txt'' =
       Some (File (TextTable ''bin_centers, rdf'' '','' [(1 / 100, 2), (5, 4)]))"
proof -
  from example_run obtain j' evs where run: "post_proc example_lib example_job = Inr (j', evs)"
    by blast
  from post_proc_rdf_artifacts [OF run] example_open example_first
  have "\<forall>t\<in>set (types (example_frame 0)). \<exists>bin_centers rdf norm.
      gsd_rdf example_lib example_traj t t (1 / 100) 5 = Inr (bin_centers, rdf, norm) \<and>
      fs j' (''rdf/rdf_txt_files/'' @ t @ ''_rdf.txt'') =
        Some (File (TextTable ''bin_centers, rdf'' '',''
                (zip bin_centers (map (\<lambda>v. v * norm) rdf))))"
    by fastforce
  then have "fs j' ''rdf/rdf_txt_files/A_rdf.txt'' =
       Some (File (TextTable ''bin_centers, rdf'' '','' [(1 / 100, 2), (5, 4)]))"
    by (simp add: example_frame_def example_lib_def)
  with run show ?thesis by blast
qed

text \<open>
  Claim C5 as the specification states it, with the table at
  \<^verbatim>\<open>rdf/rdf_txt_files/<type>.txt\<close>, fails: after the example run there is nothing at
  \<^verbatim>\<open>rdf/rdf_txt_files/A.txt\<close>; the table is at \<^verbatim>\<open>rdf/rdf_txt_files/A_rdf.txt\<close>.
\<close>

theorem rdf_txt_path_counterexample:
  "node_after example_lib example_job ''rdf/rdf_txt_files/A.txt'' = Inr None \<and>
   node_after example_lib example_job ''rdf/rdf_txt_files/A_rdf.txt'' =
     Inr (Some (File (TextTable ''bin_centers, rdf'' '','' [(1 / 100, 2), (5, 4)])))"
  by code_simp



lemma filter_all: "(\<forall>x\<in>set xs. P x) \<Longrightarrow> filter P xs = xs"
  by (induction xs) simp_all

lemma filter_none: "(\<forall>x\<in>set xs. \<not> P x) \<Longrightarrow> filter P xs = []"
  by (induction xs) simp_all

lemma diffraction_event_path [simp]:
  "event_path (diffraction_event l qp) = diffraction_path l (fst qp)"
  by (simp add: diffraction_event_def)

lemma diffraction_path_prefix [simp]:
  "startswith ''diffraction_plots/'' (diffraction_path l q)"
  by (simp add: diffraction_path_def)

lemma not_side_prefix:
  "\<not> diffraction_side p \<Longrightarrow> \<not> startswith ''diffraction_plots/'' p \<and> p \<noteq> ''dp.npy''"
  by (simp add: diffraction_side_def)

text \<open>
  Claim C7. After a run of \<^verbatim>\<open>post_proc\<close> that returned, the writes below
  \<^verbatim>\<open>diffraction_plots/\<close> are, in the order of the list of orientations, one image for
  each orientation, named by the text of the orientation and holding the pattern computed
  from the box and the positions of the last frame of the trajectory; and there is one
  write of \<^verbatim>\<open>dp.npy\<close>, whose content is the list of orientations in that same order.
\<close>

theorem post_proc_diffraction:
  assumes "post_proc l j = Inr (j', evs)"
  shows "\<exists>traj patterns.
           open_gsd j = Inr traj \<and> traj \<noteq> [] \<and>
           map (diffraction l 1024 1024 (box (last traj)) (position (last traj)))
             (get_quaternions l) = map Inr patterns \<and>
           filter (\<lambda>e. startswith ''diffraction_plots/'' (event_path e)) evs =
             map (\<lambda>qp. Write (''diffraction_plots/'' @ quaternion_str l (fst qp) @ ''.png'')
                            (DiffractionFigure (snd qp)))
                 (zip (get_quaternions l) patterns) \<and>
           length (filter (\<lambda>e. startswith ''diffraction_plots/'' (event_path e)) evs) =
             length (get_quaternions l) \<and>
           filter (\<lambda>e. event_path e = ''dp.npy'') evs =
             [Write ''dp.npy'' (NpyQuaternions (get_quaternions l))] \<and>
           fs j' ''dp.npy'' = Some (File (NpyQuaternions (get_quaternions l)))"
proof -
  from post_proc_run_facts [OF assms] obtain traj snap slopes curves ds es patterns
    where "run_facts l j j' evs traj snap slopes curves ds es patterns" by blast
  then have f: "open_gsd j = Inr traj" "first_frame traj = Inr snap"
    "evs = ds @ es @ [Mkdir ''diffraction_plots''] @
       map (diffraction_event l) (zip (get_quaternions l) patterns) @
       [Write ''dp.npy'' (NpyQuaternions (get_quaternions l))]"
    "\<forall>e\<in>set ds. \<not> is_write e \<and> event_path e \<in> out_dirs"
    "\<forall>e\<in>set es. is_write e \<and> type_path (types snap) (event_path e)"
    "map (diffraction l 1024 1024 (box (last traj)) (position (last traj))) (get_quaternions l)
       = map Inr patterns"
    "fs j' ''dp.npy'' = Some (File (NpyQuaternions (get_quaternions l)))"
    by (simp_all add: run_facts_def)
  let ?img = "\<lambda>e. startswith ''diffraction_plots/'' (event_path e)"
  let ?agg = "\<lambda>e. event_path e = ''dp.npy''"
  let ?imgs = "map (diffraction_event l) (zip (get_quaternions l) patterns)"
  from f(2) have ne: "traj \<noteq> []" by (auto simp: first_frame_def)
  have ds: "\<forall>e\<in>set ds. \<not> ?img e \<and> \<not> ?agg e"
    using f(4) out_dirs_not_diffraction not_side_prefix by blast
  have es: "\<forall>e\<in>set es. \<not> ?img e \<and> \<not> ?agg e"
    using f(5) type_path_not_diffraction not_side_prefix by blast
  have im: "\<forall>e\<in>set ?imgs. ?img e \<and> \<not> ?agg e"
    by auto
  have i1: "filter ?img ds = []" "filter ?agg ds = []" using ds by (simp_all add: filter_none)
  have i2: "filter ?img es = []" "filter ?agg es = []" using es by (simp_all add: filter_none)
  have i3: "filter ?img ?imgs = ?imgs" using im by (simp add: filter_all)
  have i4: "filter ?agg ?imgs = []" using im by (simp add: filter_none)
  have len: "length patterns = length (get_quaternions l)"
    using f(6) by (metis length_map)
  have images: "filter ?img evs = ?imgs"
    by (simp add: f(3) i1 i2 i3)
  have shape: "?imgs = map (\<lambda>qp. Write (''diffraction_plots/'' @ quaternion_str l (fst qp) @ ''.png'')
                            (DiffractionFigure (snd qp))) (zip (get_quaternions l) patterns)"
    by (simp add: diffraction_event_def diffraction_path_def)
  have count: "length (filter ?img evs) = length (get_quaternions l)"
    by (simp add: images len)
  have agg: "filter ?agg evs = [Write ''dp.npy'' (NpyQuaternions (get_quaternions l))]"
    by (simp add: f(3) i1 i2 i4)
  from f(1) ne f(6) images [unfolded shape] count agg f(7) show ?thesis by blast
qed

theorem post_proc_diffraction_witness:
  "\<exists>j' evs. post_proc example_lib example_job = Inr (j', evs) \<and>
     length (filter (\<lambda>e. startswith ''diffraction_plots/'' (event_path e)) evs) = 2 \<and>
     filter (\<lambda>e. event_path e = ''dp.npy'') evs =
       [Write ''dp.npy'' (NpyQuaternions [(1, 0, 0, 0), (0, 1, 0, 0)])]"
proof -
  from example_run obtain j' evs where run: "post_proc example_lib example_job = Inr (j', evs)"
    by blast
  from post_proc_diffraction [OF run]
  have "length (filter (\<lambda>e. startswith ''diffraction_plots/'' (event_path e)) evs) =
          length (get_quaternions example_lib)"
    and "filter (\<lambda>e. event_path e = ''dp.npy'') evs =
          [Write ''dp.npy'' (NpyQuaternions (get_quaternions example_lib))]"
    by blast+
  then have "length (filter (\<lambda>e. startswith ''diffraction_plots/'' (event_path e)) evs) = 2"
    and "filter (\<lambda>e. event_path e = ''dp.npy'') evs =
          [Write ''dp.npy'' (NpyQuaternions [(1, 0, 0, 0), (0, 1, 0, 0)])]"
    by (simp_all add: example_lib_def)
  with run show ?thesis by blast
qed

section \<open>Properties of the analysis: directories and the marker file\<close>

text \<open>
  Claim C8, as amended. If one of the directories \<^verbatim>\<open>rdf/rdf_txt_files\<close>,
  \<^verbatim>\<open>rdf/rdf_png_files\<close>, \<^verbatim>\<open>msd/msd_npy_files\<close> and \<^verbatim>\<open>diffraction_plots\<close> exists when
  \<^verbatim>\<open>post_proc\<close> starts, the operation raises. In a run that returns, the first three are
  made before any file is written; \<^verbatim>\<open>diffraction_plots\<close> is made after the four files of
  every particle type have been written, and before the files of the diffraction stage.
\<close>

theorem post_proc_directories:
  "((fs j ''rdf/rdf_txt_files'' \<noteq> None \<or> fs j ''rdf/rdf_png_files'' \<noteq> None \<or>
     fs j ''msd/msd_npy_files'' \<noteq> None \<or> fs j ''diffraction_plots'' \<noteq> None) \<longrightarrow>
      (\<exists>e. post_proc l j = Inl e)) \<and>
   (\<forall>j' evs. post_proc l j = Inr (j', evs) \<longrightarrow>
      (\<exists>traj snap ds es ps.
         open_gsd j = Inr traj \<and> first_frame traj = Inr snap \<and>
         evs = ds @ es @ Mkdir ''diffraction_plots'' # ps \<and>
         (\<forall>e\<in>set ds. \<not> is_write e) \<and>
         Mkdir ''rdf/rdf_txt_files'' \<in> set ds \<and> Mkdir ''rdf/rdf_png_files'' \<in> set ds \<and>
         Mkdir ''msd/msd_npy_files'' \<in> set ds \<and>
         (\<forall>e\<in>set es. is_write e) \<and> length es = 4 * length (types snap) \<and>
         (\<forall>e\<in>set ps. is_write e)))"
proof (intro conjI impI allI)
  assume ex: "fs j ''rdf/rdf_txt_files'' \<noteq> None \<or> fs j ''rdf/rdf_png_files'' \<noteq> None \<or>
     fs j ''msd/msd_npy_files'' \<noteq> None \<or> fs j ''diffraction_plots'' \<noteq> None"
  show "\<exists>e. post_proc l j = Inl e"
  proof (cases "post_proc l j")
    case (Inl e)
    then show ?thesis by blast
  next
    case (Inr w)
    obtain j' evs where "w = (j', evs)" by (cases w) auto
    with Inr post_proc_run_facts [of l j j' evs]
    obtain traj snap slopes curves ds es patterns
      where "run_facts l j j' evs traj snap slopes curves ds es patterns" by blast
    then have "fs j ''rdf/rdf_txt_files'' = None \<and> fs j ''rdf/rdf_png_files'' = None \<and>
        fs j ''msd/msd_npy_files'' = None \<and> fs j ''diffraction_plots'' = None"
      by (simp add: run_facts_def)
    with ex show ?thesis by simp
  qed
next
  fix j' evs
  assume run: "post_proc l j = Inr (j', evs)"
  from post_proc_run_facts [OF run] obtain traj snap slopes curves ds es patterns
    where "run_facts l j j' evs traj snap slopes curves ds es patterns" by blast
  then have f: "open_gsd j = Inr traj" "first_frame traj = Inr snap"
    "evs = ds @ es @ [Mkdir ''diffraction_plots''] @
       map (diffraction_event l) (zip (get_quaternions l) patterns) @
       [Write ''dp.npy'' (NpyQuaternions (get_quaternions l))]"
    "\<forall>e\<in>set ds. \<not> is_write e \<and> event_path e \<in> out_dirs"
    "Mkdir ''rdf/rdf_txt_files'' \<in> set ds" "Mkdir ''rdf/rdf_png_files'' \<in> set ds"
    "Mkdir ''msd/msd_npy_files'' \<in> set ds"
    "length es = 4 * length (types snap)"
    "\<forall>e\<in>set es. is_write e \<and> type_path (types snap) (event_path e)"
    by (simp_all add: run_facts_def)
  define ps where "ps = map (diffraction_event l) (zip (get_quaternions l) patterns) @
       [Write ''dp.npy'' (NpyQuaternions (get_quaternions l))]"
  have "evs = ds @ es @ Mkdir ''diffraction_plots'' # ps"
    by (simp add: f(3) ps_def)
  moreover have "\<forall>e\<in>set ps. is_write e"
    by (auto simp: ps_def is_write_def diffraction_event_def)
  moreover have "\<forall>e\<in>set ds. \<not> is_write e" using f(4) by blast
  moreover have "\<forall>e\<in>set es. is_write e" using f(9) by blast
  ultimately show "\<exists>traj snap ds es ps.
         open_gsd j = Inr traj \<and> first_frame traj = Inr snap \<and>
         evs = ds @ es @ Mkdir ''diffraction_plots'' # ps \<and>
         (\<forall>e\<in>set ds. \<not> is_write e) \<and>
         Mkdir ''rdf/rdf_txt_files'' \<in> set ds \<and> Mkdir ''rdf/rdf_png_files'' \<in> set ds \<and>
         Mkdir ''msd/msd_npy_files'' \<in> set ds \<and>
         (\<forall>e\<in>set es. is_write e) \<and> length es = 4 * length (types snap) \<and>
         (\<forall>e\<in>set ps. is_write e)"
    using f(1,2,5,6,7,8) by blast
qed

theorem post_proc_directories_witness:
  "post_proc example_lib rerun_job = Inl FileExistsError \<and>
   (\<exists>j' evs ds es ps. post_proc example_lib example_job = Inr (j', evs) \<and>
      evs = ds @ es @ Mkdir ''diffraction_plots'' # ps \<and>
      Mkdir ''rdf/rdf_txt_files'' \<in> set ds \<and> length es = 4)"
proof -
  have ex: "fs rerun_job ''rdf/rdf_txt_files'' \<noteq> None \<or> fs rerun_job ''rdf/rdf_png_files'' \<noteq> None \<or>
     fs rerun_job ''msd/msd_npy_files'' \<noteq> None \<or> fs rerun_job ''diffraction_plots'' \<noteq> None"
    by (simp add: rerun_job_def)
  have err: "fails_with FileExistsError (post_proc example_lib rerun_job)"
    by code_simp
  from post_proc_directories [of rerun_job example_lib] ex
  obtain e where "post_proc example_lib rerun_job = Inl e" by blast
  with err have 1: "post_proc example_lib rerun_job = Inl FileExistsError"
    by (simp add: fails_with_def)
  from example_run obtain j' evs where run: "post_proc example_lib example_job = Inr (j', evs)"
    by blast
  from post_proc_directories [of example_job example_lib] run example_open example_first
  obtain ds es ps where "evs = ds @ es @ Mkdir ''diffraction_plots'' # ps"
    "Mkdir ''rdf/rdf_txt_files'' \<in> set ds" "length es = 4 * length (types (example_frame 0))"
    by fastforce
  then have "evs = ds @ es @ Mkdir ''diffraction_plots'' # ps \<and>
      Mkdir ''rdf/rdf_txt_files'' \<in> set ds \<and> length es = 4"
    by (simp add: example_frame_def)
  with 1 run show ?thesis by blast
qed

text \<open>
  Claim C8 as the specification states it, with all directories made at the start, fails:
  in the example run a directory is made after files have been written.
\<close>

theorem directories_first_counterexample:
  "dirs_created_first example_lib example_job = Inr False"
  by code_simp

lemma current_step_cong:
  "fs j' ''trajectory.gsd'' = fs j ''trajectory.gsd'' \<Longrightarrow> current_step j' = current_step j"
  by (simp add: current_step_def isfile_def open_gsd_def)

text \<open>
  Claim C9. A run of \<^verbatim>\<open>post_proc\<close> that returned has changed the workspace only at
  \<^verbatim>\<open>rdf\<close>, \<^verbatim>\<open>msd\<close>, \<^verbatim>\<open>diffraction_plots\<close>, \<^verbatim>\<open>dp.npy\<close> and below the three directories, and
  never at \<^verbatim>\<open>rdf.txt\<close>: the labels \<^verbatim>\<open>rdfed\<close> and \<^verbatim>\<open>sampled\<close> have the values they had
  before the run, and so has the eligibility of \<^verbatim>\<open>post_proc\<close>.
\<close>

theorem post_proc_leaves_marker:
  assumes "post_proc l j = Inr (j', evs)"
  shows "(\<forall>e\<in>set evs. in_outputs (event_path e) \<and> event_path e \<noteq> ''rdf.txt'') \<and>
         (\<forall>p. \<not> in_outputs p \<longrightarrow> fs j' p = fs j p) \<and>
         rdfed j' = rdfed j \<and> sampled j' = sampled j \<and>
         eligible (post_proc_op pypath) j' = eligible (post_proc_op pypath) j"
proof -
  from post_proc_run_facts [OF assms] obtain traj snap slopes curves ds es patterns
    where "run_facts l j j' evs traj snap slopes curves ds es patterns" by blast
  then have f:
    "evs = ds @ es @ [Mkdir ''diffraction_plots''] @
       map (diffraction_event l) (zip (get_quaternions l) patterns) @
       [Write ''dp.npy'' (NpyQuaternions (get_quaternions l))]"
    "\<forall>e\<in>set ds. \<not> is_write e \<and> event_path e \<in> out_dirs"
    "\<forall>e\<in>set es. is_write e \<and> type_path (types snap) (event_path e)"
    "\<forall>p. \<not> in_outputs p \<longrightarrow> fs j' p = fs j p"
    "doc j' = (doc j)\<lparr>msd_slopes := Some slopes\<rparr>"
    by (simp_all add: run_facts_def)
  have "\<forall>e\<in>set ds. in_outputs (event_path e)"
    using f(2) in_outputs_out_dirs by blast
  moreover have "\<forall>e\<in>set es. in_outputs (event_path e)"
    using f(3) in_outputs_type_path by blast
  moreover have "\<forall>e\<in>set (map (diffraction_event l) (zip (get_quaternions l) patterns)).
      in_outputs (event_path e)"
    by auto
  ultimately have out: "\<forall>e\<in>set evs. in_outputs (event_path e)"
    by (auto simp: f(1))
  have "\<forall>e\<in>set evs. event_path e \<noteq> ''rdf.txt''"
  proof
    fix e assume "e \<in> set evs"
    with out have "in_outputs (event_path e)" by simp
    then show "event_path e \<noteq> ''rdf.txt''" by auto
  qed
  with out have ev: "\<forall>e\<in>set evs. in_outputs (event_path e) \<and> event_path e \<noteq> ''rdf.txt''"
    by simp
  from f(4) have r: "fs j' ''rdf.txt'' = fs j ''rdf.txt''"
    and t: "fs j' ''trajectory.gsd'' = fs j ''trajectory.gsd''"
    by simp_all
  have rd: "rdfed j' = rdfed j" using r by (simp add: rdfed_def isfile_def)
  have sa: "sampled j' = sampled j"
    using current_step_cong [OF t] f(5) by (simp add: sampled_def)
  have el: "eligible (post_proc_op pypath) j' = eligible (post_proc_op pypath) j"
    by (cases "sampled j") (simp_all add: eligible_def post_proc_op_def sa rd)
  from ev f(4) rd sa el show ?thesis by blast
qed

theorem post_proc_leaves_marker_witness:
  "\<exists>j' evs. post_proc example_lib example_job = Inr (j', evs) \<and>
     \<not> rdfed j' \<and> eligible (post_proc_op ''/usr/bin/python'') j' = Inr True"
proof -
  from example_run obtain j' evs where run: "post_proc example_lib example_job = Inr (j', evs)"
    by blast
  have s1: "sampled example_job = Inr True"
    by (simp add: sampled_def current_step_def isfile_def open_gsd_def last_frame_def
          example_job_def example_traj_def example_frame_def)
  have r1: "\<not> rdfed example_job"
    by (simp add: rdfed_def isfile_def example_job_def)
  have e1: "eligible (post_proc_op ''/usr/bin/python'') example_job = Inr True"
    by (simp add: eligible_def post_proc_op_def s1 r1)
  from post_proc_leaves_marker [OF run, of "''/usr/bin/python''"] r1 e1
  have "\<not> rdfed j' \<and> eligible (post_proc_op ''/usr/bin/python'') j' = Inr True"
    by simp
  with run show ?thesis by blast
qed

end
